theory Spec2Isabelle
  imports Main "HOL-Library.Word"
begin

unbundle bit_operations_syntax

text \<open>
  The module \<^verbatim>\<open>src/commit.ts\<close> commits files to a branch through the REST interface of
  the hosting service: it resolves the base commit, uploads one blob per file, creates a
  tree on the tree of the base, creates a commit on that tree and moves the branch. The
  functions are embedded as computations over a log of the calls they make into the file
  system and to the remote service; the properties below are statements about their results
  and about that log, for every file system and every remote service.
\<close>

section \<open>Data model of \<^verbatim>\<open>src/commit.ts\<close>\<close>

text \<open>
  A JavaScript exception is a value. \<open>Error msg\<close> is \<^verbatim>\<open>new Error(msg)\<close>, the only
  exception the module raises itself; \<open>RequestError status msg\<close> stands for a rejected
  promise of the REST client and \<open>SystemError code\<close> for a failure of a call into
  \<^verbatim>\<open>fs\<close> (such as \<^verbatim>\<open>EISDIR\<close>).
\<close>

datatype error = Error string | RequestError nat string | SystemError string

type_synonym buffer = "8 word list"

text \<open>\<^verbatim>\<open>fs.Stats\<close>: only the field \<^verbatim>\<open>mode\<close> is read.\<close>

record stats =
  st_mode :: nat

text \<open>The value \<^verbatim>\<open>{ sha, mode }\<close> returned by \<^verbatim>\<open>createBlob\<close>.\<close>

record blob =
  blob_sha :: string
  blob_mode :: string

text \<open>One element of \<^verbatim>\<open>treeEntries\<close>: \<^verbatim>\<open>{ path, mode, type, sha }\<close>.\<close>

record tree_entry =
  entry_path :: string
  entry_mode :: string
  entry_type :: string
  entry_sha :: string

text \<open>The value \<^verbatim>\<open>{ sha, treeSha }\<close> returned by \<^verbatim>\<open>getBranchInfo\<close>.\<close>

record branch_info =
  info_sha :: string
  info_treeSha :: string

text \<open>
  \<^verbatim>\<open>CommitOptions\<close>. The optional field \<^verbatim>\<open>baseSha?: string\<close> is \<open>None\<close> when it is
  \<^verbatim>\<open>undefined\<close>.
\<close>

record CommitOptions =
  opt_token :: string
  opt_owner :: string
  opt_repo :: string
  opt_branch :: string
  opt_message :: string
  opt_filePaths :: "string list"
  opt_baseSha :: "string option"

record CommitResult =
  res_commitSha :: string
  res_treeSha :: string
  res_filesCommitted :: nat

section \<open>The environment: the REST client and the file system\<close>

text \<open>
  The six requests of \<^verbatim>\<open>octokit.rest.git\<close> that the module sends, each with the fields
  of its parameter object in the order given here:
  \<^item> \<open>GetRef owner repo ref\<close>
  \<^item> \<open>GetCommit owner repo commit_sha\<close>
  \<^item> \<open>CreateBlob owner repo content encoding\<close>
  \<^item> \<open>CreateTree owner repo base_tree tree\<close>
  \<^item> \<open>CreateCommit owner repo message tree parents\<close>
  \<^item> \<open>UpdateRef owner repo ref sha force\<close>
\<close>

datatype call =
    GetRef string string string
  | GetCommit string string string
  | CreateBlob string string string string
  | CreateTree string string string "tree_entry list"
  | CreateCommit string string string string "string list"
  | UpdateRef string string string string bool

text \<open>
  Every call into the file system and every request to the remote service is logged, with
  its answer, in the order in which it is made. The log is the state that the functions below thread through.
\<close>

datatype event =
    ExistsSync string bool
  | ReadFileSync string "error + buffer"
  | StatSync string "error + stats"
  | Remote call "error + string"

type_synonym trace = "event list"

text \<open>
  An \<open>octokit\<close> answers a request with the one string the module reads from the response
  (\<^verbatim>\<open>ref.object.sha\<close>, \<^verbatim>\<open>commit.tree.sha\<close>, \<^verbatim>\<open>blob.sha\<close>, \<^verbatim>\<open>tree.sha\<close>,
  \<^verbatim>\<open>commit.sha\<close>; the response of \<^verbatim>\<open>updateRef\<close> is not read) or rejects with an
  error. The answer may depend on everything that happened before, so a remote
  repository with state and a file system that changes between two calls are both
  covered.
\<close>

type_synonym octokit = "trace \<Rightarrow> call \<Rightarrow> error + string"

text \<open>
  The module \<^verbatim>\<open>@actions/github\<close>, of which \<^verbatim>\<open>getOctokit(token)\<close> is used. It builds the
  client and sends no request; it throws when it is given no token.
\<close>

record github =
  getOctokit :: "string \<Rightarrow> error + octokit"

text \<open>The module \<^verbatim>\<open>fs\<close>, of which three functions are used.\<close>

record fs =
  existsSync :: "trace \<Rightarrow> string \<Rightarrow> bool"
  readFileSync :: "trace \<Rightarrow> string \<Rightarrow> error + buffer"
  statSync :: "trace \<Rightarrow> string \<Rightarrow> error + stats"

section \<open>Sequencing\<close>

text \<open>
  A computation takes the log so far and returns its result, or the exception it threw,
  with the extended log. \<open>await m f\<close> runs \<open>m\<close> and continues with \<open>f\<close> on its value;
  an exception of \<open>m\<close> skips \<open>f\<close>, as an uncaught exception or a rejected \<^verbatim>\<open>await\<close>
  leaves the enclosing function.
\<close>

type_synonym 'a io = "trace \<Rightarrow> (error + 'a) \<times> trace"

definition return_io :: "'a \<Rightarrow> 'a io" where
  "return_io x s = (Inr x, s)"

definition throw :: "error \<Rightarrow> 'a io" where
  "throw e s = (Inl e, s)"

definition await :: "'a io \<Rightarrow> ('a \<Rightarrow> 'b io) \<Rightarrow> 'b io" where
  "await m f s = (case m s of (Inl e, s') \<Rightarrow> (Inl e, s') | (Inr x, s') \<Rightarrow> f x s')"

definition fs_existsSync :: "fs \<Rightarrow> string \<Rightarrow> bool io" where
  "fs_existsSync fs p s = (let r = existsSync fs s p in (Inr r, s @ [ExistsSync p r]))"

definition fs_readFileSync :: "fs \<Rightarrow> string \<Rightarrow> buffer io" where
  "fs_readFileSync fs p s = (let r = readFileSync fs s p in (r, s @ [ReadFileSync p r]))"

definition fs_statSync :: "fs \<Rightarrow> string \<Rightarrow> stats io" where
  "fs_statSync fs p s = (let r = statSync fs s p in (r, s @ [StatSync p r]))"

definition request :: "octokit \<Rightarrow> call \<Rightarrow> string io" where
  "request octokit c s = (let r = octokit s c in (r, s @ [Remote c r]))"

definition github_getOctokit :: "github \<Rightarrow> string \<Rightarrow> octokit io" where
  "github_getOctokit github token s = (getOctokit github token, s)"

section \<open>Library functions of the platform\<close>

text \<open>
  \<^verbatim>\<open>Buffer.prototype.toString("base64")\<close>: the standard alphabet, three bytes to four
  characters, padded with \<^verbatim>\<open>=\<close>.
\<close>

definition base64_char :: "nat \<Rightarrow> char" where
  "base64_char n =
     ''ABCDEFGHIJKLMNOPQRSTUVWXYZabcdefghijklmnopqrstuvwxyz0123456789+/'' ! (n mod 64)"

fun toString_base64 :: "buffer \<Rightarrow> string" where
  "toString_base64 [] = []"
| "toString_base64 [a] =
     (let n = unat a * 65536
      in [base64_char (n div 262144), base64_char (n div 4096), CHR ''='', CHR ''=''])"
| "toString_base64 [a, b] =
     (let n = unat a * 65536 + unat b * 256
      in [base64_char (n div 262144), base64_char (n div 4096), base64_char (n div 64),
          CHR ''=''])"
| "toString_base64 (a # b # c # rest) =
     (let n = unat a * 65536 + unat b * 256 + unat c
      in [base64_char (n div 262144), base64_char (n div 4096), base64_char (n div 64),
          base64_char n] @ toString_base64 rest)"

text \<open>
  \<^verbatim>\<open>parseInt(string, radix)\<close> for a radix of at most ten: the value of the longest prefix
  of digits below the radix. (Signs, white space and letters as digits are left out;
  the module calls it on the literal \<^verbatim>\<open>"111"\<close> only.)
\<close>

definition parseInt :: "string \<Rightarrow> nat \<Rightarrow> nat" where
  "parseInt str radix =
     foldl (\<lambda>n c. n * radix + (of_char c - 48)) 0
       (takeWhile (\<lambda>c. 48 \<le> (of_char c :: nat) \<and> (of_char c :: nat) < 48 + radix) str)"

text \<open>
  The operator \<^verbatim>\<open>&\<close> converts both operands to 32-bit integers; its result, a 32-bit
  integer, is truthy when it is not zero.
\<close>

definition bitand_truthy :: "nat \<Rightarrow> nat \<Rightarrow> bool" where
  "bitand_truthy a b \<longleftrightarrow> (word_of_nat a :: 32 word) AND word_of_nat b \<noteq> 0"

text \<open>Truthiness of an optional string: \<^verbatim>\<open>undefined\<close> and \<^verbatim>\<open>""\<close> are falsy.\<close>

fun truthy :: "string option \<Rightarrow> bool" where
  "truthy None = False"
| "truthy (Some str) = (str \<noteq> [])"

section \<open>The functions of \<^verbatim>\<open>src/commit.ts\<close>\<close>

text \<open>
  Parameters and local variables keep their names. In \<^verbatim>\<open>createBlob\<close> the calls come in
  the order of the source: the check that the file exists, the read, the upload, and only
  then the \<^verbatim>\<open>stat\<close> that decides the mode.
\<close>

definition createBlob :: "fs \<Rightarrow> octokit \<Rightarrow> string \<Rightarrow> string \<Rightarrow> string \<Rightarrow> blob io" where
  "createBlob fs octokit owner repo filePath =
     await (fs_existsSync fs filePath) (\<lambda>exists.
       if \<not> exists then throw (Error (''File not found: '' @ filePath))
       else
         await (fs_readFileSync fs filePath) (\<lambda>content.
           let base64Content = toString_base64 content in
           await (request octokit (CreateBlob owner repo base64Content ''base64'')) (\<lambda>sha.
             await (fs_statSync fs filePath) (\<lambda>stats.
               let mode = (if bitand_truthy (st_mode stats) (parseInt ''111'' 8)
                           then ''100755'' else ''100644'')
               in return_io \<lparr>blob_sha = sha, blob_mode = mode\<rparr>))))"

text \<open>The \<^verbatim>\<open>for ... of\<close> loop of \<^verbatim>\<open>createTree\<close>, with \<^verbatim>\<open>treeEntries\<close> as accumulator.\<close>

fun createTree_for ::
  "fs \<Rightarrow> octokit \<Rightarrow> string \<Rightarrow> string \<Rightarrow> string list \<Rightarrow> tree_entry list \<Rightarrow> tree_entry list io"
where
  "createTree_for fs octokit owner repo [] treeEntries = return_io treeEntries"
| "createTree_for fs octokit owner repo (filePath # rest) treeEntries =
     await (createBlob fs octokit owner repo filePath) (\<lambda>b.
       createTree_for fs octokit owner repo rest
         (treeEntries @
           [\<lparr>entry_path = filePath, entry_mode = blob_mode b, entry_type = ''blob'',
             entry_sha = blob_sha b\<rparr>]))"

definition createTree ::
  "fs \<Rightarrow> octokit \<Rightarrow> string \<Rightarrow> string \<Rightarrow> string \<Rightarrow> string list \<Rightarrow> string io"
where
  "createTree fs octokit owner repo baseTreeSha filePaths =
     await (createTree_for fs octokit owner repo filePaths []) (\<lambda>treeEntries.
       request octokit (CreateTree owner repo baseTreeSha treeEntries))"

definition createCommit ::
  "octokit \<Rightarrow> string \<Rightarrow> string \<Rightarrow> string \<Rightarrow> string \<Rightarrow> string \<Rightarrow> string io"
where
  "createCommit octokit owner repo treeSha parentSha message =
     request octokit (CreateCommit owner repo message treeSha [parentSha])"

text \<open>
  \<^verbatim>\<open>force: boolean = false\<close>: the argument is \<open>None\<close> when the caller leaves it out, and
  the default value takes its place.
\<close>

definition updateBranch ::
  "octokit \<Rightarrow> string \<Rightarrow> string \<Rightarrow> string \<Rightarrow> string \<Rightarrow> bool option \<Rightarrow> unit io"
where
  "updateBranch octokit owner repo branch commitSha force_arg =
     (let force = (case force_arg of None \<Rightarrow> False | Some b \<Rightarrow> b) in
      await (request octokit (UpdateRef owner repo (''heads/'' @ branch) commitSha force))
        (\<lambda>_. return_io ()))"

definition getBranchInfo :: "octokit \<Rightarrow> string \<Rightarrow> string \<Rightarrow> string \<Rightarrow> branch_info io" where
  "getBranchInfo octokit owner repo branch =
     await (request octokit (GetRef owner repo (''heads/'' @ branch))) (\<lambda>ref_object_sha.
       await (request octokit (GetCommit owner repo ref_object_sha)) (\<lambda>commit_tree_sha.
         return_io \<lparr>info_sha = ref_object_sha, info_treeSha = commit_tree_sha\<rparr>))"

text \<open>
  \<^verbatim>\<open>if (baseSha)\<close> tests truthiness; \<open>the baseSha\<close> stands under that test only, where
  \<^verbatim>\<open>baseSha\<close> is a string. The two branches assign \<^verbatim>\<open>branchSha\<close> and \<^verbatim>\<open>baseTreeSha\<close>,
  which the rest of the function reads: they are the pair that the first stage yields.
\<close>

definition commitViaAPI :: "github \<Rightarrow> fs \<Rightarrow> CommitOptions \<Rightarrow> CommitResult io" where
  "commitViaAPI github fs options =
     (let token = opt_token options; owner = opt_owner options; repo = opt_repo options;
          branch = opt_branch options; message = opt_message options;
          filePaths = opt_filePaths options; baseSha = opt_baseSha options
      in
      if length filePaths = 0 then throw (Error ''No files to commit'')
      else
        await (github_getOctokit github token) (\<lambda>octokit.
          await
            (if truthy baseSha then
               await (request octokit (GetCommit owner repo (the baseSha))) (\<lambda>commit_tree_sha.
                 return_io (the baseSha, commit_tree_sha))
             else
               await (getBranchInfo octokit owner repo branch) (\<lambda>branchInfo.
                 return_io (info_sha branchInfo, info_treeSha branchInfo)))
            (\<lambda>(branchSha, baseTreeSha).
              await (createTree fs octokit owner repo baseTreeSha filePaths) (\<lambda>newTreeSha.
                await (createCommit octokit owner repo newTreeSha branchSha message)
                  (\<lambda>commitSha.
                    await (updateBranch octokit owner repo branch commitSha (Some False)) (\<lambda>_.
                      return_io
                        \<lparr>res_commitSha = commitSha, res_treeSha = newTreeSha,
                         res_filesCommitted = length filePaths\<rparr>))))))"

section \<open>Observations on a log\<close>

text \<open>
  \<^verbatim>\<open>createBlob\<close> is the only function that calls \<^verbatim>\<open>fs.existsSync\<close>, and it does so
  once, as its first step: the paths of the \<open>ExistsSync\<close> events of a log are the
  invocations of \<^verbatim>\<open>createBlob\<close>, in order.
\<close>

fun blob_invocations :: "trace \<Rightarrow> string list" where
  "blob_invocations [] = []"
| "blob_invocations (ExistsSync p b # evs) = p # blob_invocations evs"
| "blob_invocations (ev # evs) = blob_invocations evs"

text \<open>The requests sent to the remote service, in order.\<close>

fun remote_calls :: "trace \<Rightarrow> call list" where
  "remote_calls [] = []"
| "remote_calls (Remote c x # evs) = c # remote_calls evs"
| "remote_calls (ev # evs) = remote_calls evs"

fun is_CreateBlob :: "call \<Rightarrow> bool" where
  "is_CreateBlob (CreateBlob owner repo content encoding) = True"
| "is_CreateBlob c = False"

text \<open>The entry lists of the create-tree requests of a log, in order.\<close>

fun tree_calls :: "trace \<Rightarrow> tree_entry list list" where
  "tree_calls [] = []"
| "tree_calls (Remote (CreateTree owner repo base_tree tree) x # evs) = tree # tree_calls evs"
| "tree_calls (ev # evs) = tree_calls evs"

section \<open>The runs of \<^verbatim>\<open>commitViaAPI\<close>\<close>

text \<open>
  The events of a run, stage by stage. \<open>resolve_run options r pre\<close>: resolving the base
  commit logs \<open>pre\<close> and yields \<open>r\<close>, the pair of the base commit and its tree, or an
  error.
\<close>

inductive resolve_run :: "CommitOptions \<Rightarrow> (error + string \<times> string) \<Rightarrow> trace \<Rightarrow> bool"
  for options :: CommitOptions
where
  given_rejected:
    "truthy (opt_baseSha options) \<Longrightarrow>
     resolve_run options (Inl e)
       [Remote (GetCommit (opt_owner options) (opt_repo options) (the (opt_baseSha options))) (Inl e)]"
| given_resolved:
    "truthy (opt_baseSha options) \<Longrightarrow>
     resolve_run options (Inr (the (opt_baseSha options), baseTreeSha))
       [Remote (GetCommit (opt_owner options) (opt_repo options) (the (opt_baseSha options)))
          (Inr baseTreeSha)]"
| ref_rejected:
    "\<not> truthy (opt_baseSha options) \<Longrightarrow>
     resolve_run options (Inl e)
       [Remote (GetRef (opt_owner options) (opt_repo options) (''heads/'' @ opt_branch options))
          (Inl e)]"
| tip_rejected:
    "\<not> truthy (opt_baseSha options) \<Longrightarrow>
     resolve_run options (Inl e)
       [Remote (GetRef (opt_owner options) (opt_repo options) (''heads/'' @ opt_branch options))
          (Inr branchSha),
        Remote (GetCommit (opt_owner options) (opt_repo options) branchSha) (Inl e)]"
| tip_resolved:
    "\<not> truthy (opt_baseSha options) \<Longrightarrow>
     resolve_run options (Inr (branchSha, baseTreeSha))
       [Remote (GetRef (opt_owner options) (opt_repo options) (''heads/'' @ opt_branch options))
          (Inr branchSha),
        Remote (GetCommit (opt_owner options) (opt_repo options) branchSha) (Inr baseTreeSha)]"

text \<open>
  \<open>finish_run options branchSha newTreeSha r post\<close>: creating the commit on the new tree
  and moving the branch logs \<open>post\<close> and yields \<open>r\<close>.
\<close>

inductive finish_run ::
  "CommitOptions \<Rightarrow> string \<Rightarrow> string \<Rightarrow> (error + CommitResult) \<Rightarrow> trace \<Rightarrow> bool"
  for options :: CommitOptions and branchSha newTreeSha :: string
where
  commit_rejected:
    "finish_run options branchSha newTreeSha (Inl e)
       [Remote (CreateCommit (opt_owner options) (opt_repo options) (opt_message options)
          newTreeSha [branchSha]) (Inl e)]"
| update_rejected:
    "finish_run options branchSha newTreeSha (Inl e)
       [Remote (CreateCommit (opt_owner options) (opt_repo options) (opt_message options)
          newTreeSha [branchSha]) (Inr commitSha),
        Remote (UpdateRef (opt_owner options) (opt_repo options) (''heads/'' @ opt_branch options)
          commitSha False) (Inl e)]"
| updated:
    "finish_run options branchSha newTreeSha
       (Inr \<lparr>res_commitSha = commitSha, res_treeSha = newTreeSha,
             res_filesCommitted = length (opt_filePaths options)\<rparr>)
       [Remote (CreateCommit (opt_owner options) (opt_repo options) (opt_message options)
          newTreeSha [branchSha]) (Inr commitSha),
        Remote (UpdateRef (opt_owner options) (opt_repo options) (''heads/'' @ opt_branch options)
          commitSha False) (Inr x)]"

text \<open>
  \<open>commit_run options r evs\<close>: a run on a non-empty list of paths logs \<open>evs\<close> and
  yields \<open>r\<close>. It logs nothing when the client cannot be built. Between the two stages
  above lie the events \<open>blobs\<close> of the loop over the paths and, when the loop has finished,
  the create-tree request.
\<close>

inductive commit_run :: "CommitOptions \<Rightarrow> (error + CommitResult) \<Rightarrow> trace \<Rightarrow> bool"
  for options :: CommitOptions
where
  no_client:
    "commit_run options (Inl e) []"
| unresolved:
    "resolve_run options (Inl e) pre \<Longrightarrow> commit_run options (Inl e) pre"
| blob_failed:
    "resolve_run options (Inr (branchSha, baseTreeSha)) pre \<Longrightarrow>
     list_all is_CreateBlob (remote_calls blobs) \<Longrightarrow>
     commit_run options (Inl e) (pre @ blobs)"
| tree_rejected:
    "resolve_run options (Inr (branchSha, baseTreeSha)) pre \<Longrightarrow>
     list_all is_CreateBlob (remote_calls blobs) \<Longrightarrow>
     blob_invocations blobs = opt_filePaths options \<Longrightarrow>
     map entry_path entries = opt_filePaths options \<Longrightarrow>
     commit_run options (Inl e)
       (pre @ blobs @
        [Remote (CreateTree (opt_owner options) (opt_repo options) baseTreeSha entries) (Inl e)])"
| tree_created:
    "resolve_run options (Inr (branchSha, baseTreeSha)) pre \<Longrightarrow>
     list_all is_CreateBlob (remote_calls blobs) \<Longrightarrow>
     blob_invocations blobs = opt_filePaths options \<Longrightarrow>
     map entry_path entries = opt_filePaths options \<Longrightarrow>
     finish_run options branchSha newTreeSha r post \<Longrightarrow>
     commit_run options r
       (pre @ blobs @
        [Remote (CreateTree (opt_owner options) (opt_repo options) baseTreeSha entries)
           (Inr newTreeSha)] @ post)"

section \<open>The environment of the unit tests\<close>

text \<open>
  The mocks of \<^verbatim>\<open>src/__tests__/unit/commit.test.ts\<close>: every file exists, holds the
  bytes of \<^verbatim>\<open>"content"\<close> and has the given mode (\<^verbatim>\<open>0o644\<close> in the tests); the remote
  service answers every request with a fixed identifier.
\<close>

definition Buffer_from :: "string \<Rightarrow> buffer" where
  "Buffer_from str = map of_char str"

definition mock_fs :: "nat \<Rightarrow> fs" where
  "mock_fs m =
     \<lparr>existsSync = (\<lambda>s p. True),
      readFileSync = (\<lambda>s p. Inr (Buffer_from ''content'')),
      statSync = (\<lambda>s p. Inr \<lparr>st_mode = m\<rparr>)\<rparr>"

text \<open>
  The test \<^verbatim>\<open>should throw error if file does not exist\<close>: \<^verbatim>\<open>existsSync\<close> answers
  \<^verbatim>\<open>false\<close>. (Reading a file that does not exist fails with \<^verbatim>\<open>ENOENT\<close>.)
\<close>

definition missing_fs :: fs where
  "missing_fs =
     \<lparr>existsSync = (\<lambda>s p. False),
      readFileSync = (\<lambda>s p. Inl (SystemError ''ENOENT'')),
      statSync = (\<lambda>s p. Inl (SystemError ''ENOENT''))\<rparr>"

definition mock_octokit :: octokit where
  "mock_octokit s c =
     (case c of
        GetRef owner repo ref \<Rightarrow> Inr ''base-sha''
      | GetCommit owner repo commit_sha \<Rightarrow> Inr ''base-tree-sha''
      | CreateBlob owner repo content encoding \<Rightarrow> Inr ''blob-sha''
      | CreateTree owner repo base_tree tree \<Rightarrow> Inr ''new-tree-sha''
      | CreateCommit owner repo message tree parents \<Rightarrow> Inr ''commit-sha''
      | UpdateRef owner repo ref sha force \<Rightarrow> Inr [])"

definition mock_github :: github where
  "mock_github = \<lparr>getOctokit = (\<lambda>token. Inr mock_octokit)\<rparr>"

text \<open>
  The library itself, which the tests replace by the mock above, refuses an empty token:
  \<^verbatim>\<open>getOctokit("")\<close> throws \<^verbatim>\<open>Error("Parameter token or opts.auth is required")\<close>.
\<close>

definition strict_github :: github where
  "strict_github =
     \<lparr>getOctokit = (\<lambda>token.
        if token = [] then Inl (Error ''Parameter token or opts.auth is required'')
        else Inr mock_octokit)\<rparr>"

definition test_options :: "string list \<Rightarrow> string option \<Rightarrow> CommitOptions" where
  "test_options paths base =
     \<lparr>opt_token = ''test-token'', opt_owner = ''owner'', opt_repo = ''repo'',
      opt_branch = ''dev'', opt_message = ''Test commit'', opt_filePaths = paths,
      opt_baseSha = base\<rparr>"

text \<open>The permission masks \<^verbatim>\<open>0o111\<close>, \<^verbatim>\<open>0o644\<close> and \<^verbatim>\<open>0o755\<close>.\<close>

definition S_IXUGO :: nat where
  "S_IXUGO = parseInt ''111'' 8"

definition mode_644 :: nat where
  "mode_644 = parseInt ''644'' 8"

definition mode_755 :: nat where
  "mode_755 = parseInt ''755'' 8"

section \<open>Basic facts\<close>

lemma blob_invocations_append:
  "blob_invocations (xs @ ys) = blob_invocations xs @ blob_invocations ys"
  by (induction xs rule: blob_invocations.induct) simp_all

lemma remote_calls_append: "remote_calls (xs @ ys) = remote_calls xs @ remote_calls ys"
  by (induction xs rule: remote_calls.induct) simp_all

lemma await_cases:
  assumes "await m f s = (r, t)"
  obtains (throws) e where "m s = (Inl e, t)" and "r = Inl e"
  | (continues) x s' where "m s = (Inr x, s')" and "f x s' = (r, t)"
  using assms by (auto simp: await_def split: prod.splits sum.splits)

lemma createBlob_events:
  assumes "createBlob fs octokit owner repo filePath s = (r, t)"
  shows "\<exists>evs. t = s @ evs \<and> blob_invocations evs = [filePath] \<and>
           list_all is_CreateBlob (remote_calls evs)"
  using assms
  by (auto simp: createBlob_def await_def fs_existsSync_def fs_readFileSync_def fs_statSync_def
      request_def throw_def return_io_def Let_def split: if_splits sum.splits)

lemma createBlob_success:
  assumes "createBlob fs octokit owner repo filePath s = (Inr b, t)"
  shows "\<exists>content st.
     t = s @ [ExistsSync filePath True, ReadFileSync filePath (Inr content),
              Remote (CreateBlob owner repo (toString_base64 content) ''base64'')
                (Inr (blob_sha b)),
              StatSync filePath (Inr st)] \<and>
     blob_mode b =
      (if bitand_truthy (st_mode st) (parseInt ''111'' 8) then ''100755'' else ''100644'')"
  using assms
  by (fastforce simp: createBlob_def await_def fs_existsSync_def fs_readFileSync_def
        fs_statSync_def request_def throw_def return_io_def Let_def
        split: if_splits sum.splits)

lemma createTree_for_run:
  assumes "createTree_for fs octokit owner repo filePaths treeEntries s = (r, t)"
  shows "\<exists>evs. t = s @ evs \<and> list_all is_CreateBlob (remote_calls evs) \<and>
     (\<forall>entries. r = Inr entries \<longrightarrow>
        map entry_path entries = map entry_path treeEntries @ filePaths \<and>
        blob_invocations evs = filePaths)"
  using assms
proof (induction filePaths arbitrary: treeEntries s)
  case Nil
  then show ?case by (auto simp: return_io_def)
next
  case (Cons filePath rest)
  from Cons.prems have
    "await (createBlob fs octokit owner repo filePath) (\<lambda>b.
       createTree_for fs octokit owner repo rest
         (treeEntries @
           [\<lparr>entry_path = filePath, entry_mode = blob_mode b, entry_type = ''blob'',
             entry_sha = blob_sha b\<rparr>])) s = (r, t)"
    by simp
  then show ?case
  proof (cases rule: await_cases)
    case (throws e)
    with createBlob_events[OF throws(1)] show ?thesis by auto
  next
    case (continues b s')
    from createBlob_events[OF continues(1)] obtain evs1 where
      evs1: "s' = s @ evs1" "blob_invocations evs1 = [filePath]"
        "list_all is_CreateBlob (remote_calls evs1)"
      by blast
    from Cons.IH[OF continues(2)] obtain evs2 where
      evs2: "t = s' @ evs2" "list_all is_CreateBlob (remote_calls evs2)"
        "\<forall>entries. r = Inr entries \<longrightarrow>
           map entry_path entries =
             map entry_path (treeEntries @
               [\<lparr>entry_path = filePath, entry_mode = blob_mode b, entry_type = ''blob'',
                 entry_sha = blob_sha b\<rparr>]) @ rest \<and>
           blob_invocations evs2 = rest"
      by blast
    from evs1 evs2 show ?thesis
      by (intro exI[of _ "evs1 @ evs2"])
         (simp add: blob_invocations_append remote_calls_append)
  qed
qed

lemma createTree_run:
  assumes "createTree fs octokit owner repo baseTreeSha filePaths s = (r, t)"
  shows "\<exists>blobs. list_all is_CreateBlob (remote_calls blobs) \<and>
     ((\<exists>e. r = Inl e \<and> t = s @ blobs) \<or>
      (\<exists>entries. t = s @ blobs @ [Remote (CreateTree owner repo baseTreeSha entries) r] \<and>
         map entry_path entries = filePaths \<and> blob_invocations blobs = filePaths))"
  using assms unfolding createTree_def
proof (cases rule: await_cases)
  case (throws e)
  with createTree_for_run[OF throws(1)] show ?thesis by auto
next
  case (continues entries s')
  from createTree_for_run[OF continues(1)] obtain blobs where
    "s' = s @ blobs" "list_all is_CreateBlob (remote_calls blobs)"
    "map entry_path entries = filePaths" "blob_invocations blobs = filePaths"
    by auto
  with continues(2) show ?thesis
    by (auto simp: request_def Let_def)
qed

lemma resolve_stage:
  assumes "(if truthy (opt_baseSha options) then
             await (request octokit (GetCommit (opt_owner options) (opt_repo options)
                      (the (opt_baseSha options)))) (\<lambda>commit_tree_sha.
               return_io (the (opt_baseSha options), commit_tree_sha))
           else
             await (getBranchInfo octokit (opt_owner options) (opt_repo options)
                      (opt_branch options)) (\<lambda>branchInfo.
               return_io (info_sha branchInfo, info_treeSha branchInfo))) s = (r, t)"
  shows "\<exists>pre. t = s @ pre \<and> resolve_run options r pre"
  using assms
  by (auto simp: await_def request_def getBranchInfo_def return_io_def Let_def
      split: if_splits sum.splits intro: resolve_run.intros[simplified])

lemma finish_stage:
  assumes "await (createCommit octokit (opt_owner options) (opt_repo options) newTreeSha branchSha
                    (opt_message options)) (\<lambda>commitSha.
             await (updateBranch octokit (opt_owner options) (opt_repo options)
                      (opt_branch options) commitSha (Some False)) (\<lambda>_.
               return_io
                 \<lparr>res_commitSha = commitSha, res_treeSha = newTreeSha,
                  res_filesCommitted = length (opt_filePaths options)\<rparr>)) s = (r, t)"
  shows "\<exists>post. t = s @ post \<and> finish_run options branchSha newTreeSha r post"
  using assms
  by (auto simp: await_def request_def createCommit_def updateBranch_def return_io_def Let_def
      split: if_splits sum.splits intro: finish_run.intros[simplified])

text \<open>Every run on a non-empty list of paths extends the log by a \<open>commit_run\<close>.\<close>

lemma commitViaAPI_run:
  assumes run: "commitViaAPI github fs options s = (r, t)"
    and nonempty: "opt_filePaths options \<noteq> []"
  shows "\<exists>evs. t = s @ evs \<and> commit_run options r evs"
proof (cases "getOctokit github (opt_token options)")
  case (Inl e)
  with run nonempty have "r = Inl e" and "t = s"
    by (simp_all add: commitViaAPI_def Let_def await_def github_getOctokit_def)
  then show ?thesis by (auto intro: commit_run.no_client)
next
  case (Inr octokit)
  with run nonempty have
    "await
       (if truthy (opt_baseSha options) then
          await (request octokit (GetCommit (opt_owner options) (opt_repo options)
                   (the (opt_baseSha options)))) (\<lambda>commit_tree_sha.
            return_io (the (opt_baseSha options), commit_tree_sha))
        else
          await (getBranchInfo octokit (opt_owner options) (opt_repo options)
                   (opt_branch options)) (\<lambda>branchInfo.
            return_io (info_sha branchInfo, info_treeSha branchInfo)))
       (\<lambda>(branchSha, baseTreeSha).
          await (createTree fs octokit (opt_owner options) (opt_repo options) baseTreeSha
                   (opt_filePaths options)) (\<lambda>newTreeSha.
            await (createCommit octokit (opt_owner options) (opt_repo options) newTreeSha
                     branchSha (opt_message options)) (\<lambda>commitSha.
              await (updateBranch octokit (opt_owner options) (opt_repo options)
                       (opt_branch options) commitSha (Some False)) (\<lambda>_.
                return_io
                  \<lparr>res_commitSha = commitSha, res_treeSha = newTreeSha,
                   res_filesCommitted = length (opt_filePaths options)\<rparr>)))) s = (r, t)"
    by (simp add: commitViaAPI_def Let_def await_def[of "github_getOctokit github (opt_token options)"]
        github_getOctokit_def split del: if_split)
  then show ?thesis
  proof (cases rule: await_cases)
    case (throws e)
    from resolve_stage[OF throws(1)] obtain pre where
      "t = s @ pre" and "resolve_run options (Inl e) pre" by blast
    with throws(2) show ?thesis by (auto intro: commit_run.unresolved)
  next
    case (continues base s1)
    obtain branchSha baseTreeSha where base: "base = (branchSha, baseTreeSha)" by (cases base)
    from resolve_stage[OF continues(1)] base obtain pre where
      pre: "s1 = s @ pre" "resolve_run options (Inr (branchSha, baseTreeSha)) pre" by blast
    from continues(2) base have
      "await (createTree fs octokit (opt_owner options) (opt_repo options) baseTreeSha
                (opt_filePaths options)) (\<lambda>newTreeSha.
         await (createCommit octokit (opt_owner options) (opt_repo options) newTreeSha
                  branchSha (opt_message options)) (\<lambda>commitSha.
           await (updateBranch octokit (opt_owner options) (opt_repo options)
                    (opt_branch options) commitSha (Some False)) (\<lambda>_.
             return_io
               \<lparr>res_commitSha = commitSha, res_treeSha = newTreeSha,
                res_filesCommitted = length (opt_filePaths options)\<rparr>))) s1 = (r, t)"
      by simp
    then show ?thesis
    proof (cases rule: await_cases)
      case (throws e)
      from createTree_run[OF throws(1)] obtain blobs where
        blobs: "list_all is_CreateBlob (remote_calls blobs)" and
        shape: "t = s1 @ blobs \<or>
          (\<exists>entries. t = s1 @ blobs @
              [Remote (CreateTree (opt_owner options) (opt_repo options) baseTreeSha entries)
                 (Inl e)] \<and>
            map entry_path entries = opt_filePaths options \<and>
            blob_invocations blobs = opt_filePaths options)"
        by auto
      from shape show ?thesis
      proof
        assume "t = s1 @ blobs"
        with pre blobs throws(2) show ?thesis
          by (auto intro: commit_run.blob_failed)
      next
        assume "\<exists>entries. t = s1 @ blobs @
              [Remote (CreateTree (opt_owner options) (opt_repo options) baseTreeSha entries)
                 (Inl e)] \<and>
            map entry_path entries = opt_filePaths options \<and>
            blob_invocations blobs = opt_filePaths options"
        then obtain entries where
          "t = s1 @ blobs @
              [Remote (CreateTree (opt_owner options) (opt_repo options) baseTreeSha entries)
                 (Inl e)]"
          "map entry_path entries = opt_filePaths options"
          "blob_invocations blobs = opt_filePaths options"
          by blast
        with pre blobs throws(2) show ?thesis
          using commit_run.tree_rejected[of options branchSha baseTreeSha pre blobs entries e]
          by simp
      qed
    next
      case (continues newTreeSha s2)
      from createTree_run[OF continues(1)] obtain blobs entries where
        blobs: "list_all is_CreateBlob (remote_calls blobs)"
          "map entry_path entries = opt_filePaths options"
          "blob_invocations blobs = opt_filePaths options" and
        s2: "s2 = s1 @ blobs @
              [Remote (CreateTree (opt_owner options) (opt_repo options) baseTreeSha entries)
                 (Inr newTreeSha)]"
        by auto
      from finish_stage[OF continues(2)] obtain post where
        post: "t = s2 @ post" "finish_run options branchSha newTreeSha r post" by blast
      from pre blobs post s2 show ?thesis
        using commit_run.tree_created[of options branchSha baseTreeSha pre blobs entries
            newTreeSha r post]
        by simp
    qed
  qed
qed

lemma blobs_remote:
  "list_all is_CreateBlob (remote_calls blobs) \<Longrightarrow> \<not> is_CreateBlob c \<Longrightarrow> Remote c x \<notin> set blobs"
  by (induction blobs rule: remote_calls.induct) auto

lemma tree_calls_append: "tree_calls (xs @ ys) = tree_calls xs @ tree_calls ys"
  by (induction xs rule: tree_calls.induct) simp_all

lemma tree_calls_blobs: "list_all is_CreateBlob (remote_calls blobs) \<Longrightarrow> tree_calls blobs = []"
proof (induction blobs rule: remote_calls.induct)
  case (2 c x evs)
  then show ?case by (cases c) simp_all
qed simp_all

lemma commitViaAPI_cases:
  obtains (empty) "opt_filePaths options = []"
      and "commitViaAPI github fs options s = (Inl (Error ''No files to commit''), s)"
  | (run) r evs where "opt_filePaths options \<noteq> []"
      and "commitViaAPI github fs options s = (r, s @ evs)"
      and "commit_run options r evs"
proof (cases "opt_filePaths options = []")
  case True
  then have "commitViaAPI github fs options s = (Inl (Error ''No files to commit''), s)"
    by (simp add: commitViaAPI_def throw_def)
  with True show ?thesis by (rule empty)
next
  case False
  obtain r t where "commitViaAPI github fs options s = (r, t)"
    by (cases "commitViaAPI github fs options s")
  with commitViaAPI_run[OF this False] False show ?thesis by (auto intro: run)
qed

lemma resolve_run_quiet:
  "resolve_run options r pre \<Longrightarrow> tree_calls pre = [] \<and> blob_invocations pre = []"
  by (auto elim!: resolve_run.cases)

lemma finish_run_quiet:
  "finish_run options branchSha newTreeSha r post \<Longrightarrow>
     tree_calls post = [] \<and> blob_invocations post = []"
  by (auto elim!: finish_run.cases)

lemma commit_run_tree:
  assumes "commit_run options r evs"
  shows "tree_calls evs = [] \<and> (\<exists>e. r = Inl e) \<or>
     (\<exists>entries. tree_calls evs = [entries] \<and>
        map entry_path entries = opt_filePaths options \<and>
        blob_invocations evs = opt_filePaths options)"
  using assms
proof cases
  case (no_client e)
  then show ?thesis by simp
next
  case (unresolved e)
  then show ?thesis by (auto dest: resolve_run_quiet)
next
  case (blob_failed branchSha baseTreeSha pre blobs e)
  then show ?thesis
    by (auto dest: resolve_run_quiet simp: tree_calls_append tree_calls_blobs)
next
  case (tree_rejected branchSha baseTreeSha pre blobs entries e)
  from tree_rejected(3) have "tree_calls pre = []" "blob_invocations pre = []"
    by (auto dest: resolve_run_quiet)
  then show ?thesis
    using tree_rejected(2,4,5,6)
    by (simp add: tree_calls_append tree_calls_blobs blob_invocations_append)
next
  case (tree_created branchSha baseTreeSha pre blobs entries newTreeSha post)
  from tree_created(2) have "tree_calls pre = []" "blob_invocations pre = []"
    by (auto dest: resolve_run_quiet)
  moreover from tree_created(6) have "tree_calls post = []" "blob_invocations post = []"
    by (auto dest: finish_run_quiet)
  ultimately show ?thesis
    using tree_created(1,3,4,5)
    by (simp add: tree_calls_append tree_calls_blobs blob_invocations_append)
qed

lemma commit_run_success:
  assumes "commit_run options (Inr res) evs"
  shows "\<exists>pre blobs branchSha baseTreeSha entries x.
     evs = pre @ blobs @
       [Remote (CreateTree (opt_owner options) (opt_repo options) baseTreeSha entries)
          (Inr (res_treeSha res)),
        Remote (CreateCommit (opt_owner options) (opt_repo options) (opt_message options)
          (res_treeSha res) [branchSha]) (Inr (res_commitSha res)),
        Remote (UpdateRef (opt_owner options) (opt_repo options)
          (''heads/'' @ opt_branch options) (res_commitSha res) False) (Inr x)] \<and>
     resolve_run options (Inr (branchSha, baseTreeSha)) pre \<and>
     list_all is_CreateBlob (remote_calls blobs) \<and>
     blob_invocations blobs = opt_filePaths options \<and>
     map entry_path entries = opt_filePaths options \<and>
     res_filesCommitted res = length (opt_filePaths options)"
  using assms
proof cases
  case (tree_created branchSha baseTreeSha pre blobs entries newTreeSha post)
  from tree_created(6) obtain x where
    "post = [Remote (CreateCommit (opt_owner options) (opt_repo options) (opt_message options)
          newTreeSha [branchSha]) (Inr (res_commitSha res)),
        Remote (UpdateRef (opt_owner options) (opt_repo options)
          (''heads/'' @ opt_branch options) (res_commitSha res) False) (Inr x)]"
    "res_treeSha res = newTreeSha" "res_filesCommitted res = length (opt_filePaths options)"
    by cases auto
  with tree_created show ?thesis by auto
qed

section \<open>From the base to the commit\<close>

text \<open>
  Every upload starts with the check that the file exists, so the loop over a non-empty list
  of paths starts with the check of its first path.
\<close>

lemma createBlob_first:
  assumes "createBlob fs octokit owner repo filePath s = (r, t)"
  shows "\<exists>evs. t = s @ ExistsSync filePath (existsSync fs s filePath) # evs"
  using assms
  by (auto simp: createBlob_def await_def fs_existsSync_def fs_readFileSync_def fs_statSync_def
      request_def throw_def return_io_def Let_def split: if_splits sum.splits)

lemma createTree_for_first:
  assumes "createTree_for fs octokit owner repo filePaths treeEntries s = (r, t)"
    and "filePaths \<noteq> []"
  shows "\<exists>evs. t = s @ ExistsSync (hd filePaths) (existsSync fs s (hd filePaths)) # evs"
proof -
  from assms(2) obtain filePath rest where paths: "filePaths = filePath # rest"
    by (cases filePaths) auto
  with assms(1) have
    "await (createBlob fs octokit owner repo filePath) (\<lambda>b.
       createTree_for fs octokit owner repo rest
         (treeEntries @
           [\<lparr>entry_path = filePath, entry_mode = blob_mode b, entry_type = ''blob'',
             entry_sha = blob_sha b\<rparr>])) s = (r, t)"
    by simp
  then show ?thesis
  proof (cases rule: await_cases)
    case (throws e)
    from createBlob_first[OF throws(1)] paths show ?thesis by simp
  next
    case (continues b s')
    from createBlob_first[OF continues(1)] obtain evs1 where
      "s' = s @ ExistsSync filePath (existsSync fs s filePath) # evs1" by blast
    moreover from createTree_for_run[OF continues(2)] obtain evs2 where "t = s' @ evs2"
      by blast
    ultimately show ?thesis using paths by simp
  qed
qed

text \<open>
  The part of \<^verbatim>\<open>commitViaAPI\<close> that follows the resolution of the base, run from the log
  \<open>s1\<close> on the base commit \<open>branchSha\<close> with tree \<open>baseTreeSha\<close>: it starts the uploads,
  looks nothing up, creates trees on \<open>baseTreeSha\<close> only and commits with the parent
  \<open>branchSha\<close> only; when the loop over the paths succeeds it sends create-tree on
  \<open>baseTreeSha\<close> next, and when that is answered it sends create-commit with the parent
  \<open>branchSha\<close> next.
\<close>

lemma commit_rest:
  assumes run: "await (createTree fs octokit (opt_owner options) (opt_repo options) baseTreeSha
                    (opt_filePaths options)) (\<lambda>newTreeSha.
             await (createCommit octokit (opt_owner options) (opt_repo options) newTreeSha
                      branchSha (opt_message options)) (\<lambda>commitSha.
               await (updateBranch octokit (opt_owner options) (opt_repo options)
                        (opt_branch options) commitSha (Some False)) (\<lambda>_.
                 return_io
                   \<lparr>res_commitSha = commitSha, res_treeSha = newTreeSha,
                    res_filesCommitted = length (opt_filePaths options)\<rparr>))) s1 = (r, t)"
    and nonempty: "opt_filePaths options \<noteq> []"
  shows "\<exists>rest. t = s1 @ rest \<and>
     (\<forall>owner repo ref y. Remote (GetRef owner repo ref) y \<notin> set rest) \<and>
     (\<forall>owner repo commit_sha y. Remote (GetCommit owner repo commit_sha) y \<notin> set rest) \<and>
     (\<exists>found rest''. rest = ExistsSync (hd (opt_filePaths options)) found # rest'') \<and>
     (\<forall>owner repo base_tree entries y.
        Remote (CreateTree owner repo base_tree entries) y \<in> set rest \<longrightarrow> base_tree = baseTreeSha) \<and>
     (\<forall>owner repo message tree parents y.
        Remote (CreateCommit owner repo message tree parents) y \<in> set rest \<longrightarrow> parents = [branchSha]) \<and>
     (\<forall>entries s2.
        createTree_for fs octokit (opt_owner options) (opt_repo options) (opt_filePaths options) []
          (s1) = (Inr entries, s2) \<longrightarrow>
        (\<exists>y post.
           s1 @ rest =
             s2 @ Remote (CreateTree (opt_owner options) (opt_repo options) baseTreeSha entries) y # post \<and>
           (\<forall>newTreeSha. y = Inr newTreeSha \<longrightarrow>
              (\<exists>z post'. post =
                 Remote (CreateCommit (opt_owner options) (opt_repo options) (opt_message options)
                   newTreeSha [branchSha]) z # post'))))"
proof -
  obtain loop s2 where loop:
    "createTree_for fs octokit (opt_owner options) (opt_repo options) (opt_filePaths options) []
       s1 = (loop, s2)"
    by (cases "createTree_for fs octokit (opt_owner options) (opt_repo options)
       (opt_filePaths options) [] s1")
  from createTree_for_run[OF loop] obtain blobs where
    s2: "s2 = s1 @ blobs" and blobs: "list_all is_CreateBlob (remote_calls blobs)" by blast
  from createTree_for_first[OF loop nonempty] s2 obtain blobs' where
    first: "blobs = ExistsSync (hd (opt_filePaths options))
      (existsSync fs s1 (hd (opt_filePaths options))) # blobs'"
    by auto
  from blobs have quiet:
    "\<forall>owner repo ref y. Remote (GetRef owner repo ref) y \<notin> set blobs"
    "\<forall>owner repo commit_sha y. Remote (GetCommit owner repo commit_sha) y \<notin> set blobs"
    "\<forall>owner repo base_tree entries y.
       Remote (CreateTree owner repo base_tree entries) y \<notin> set blobs"
    "\<forall>owner repo message tree parents y.
       Remote (CreateCommit owner repo message tree parents) y \<notin> set blobs"
    by (simp_all add: blobs_remote)
  let ?tree = "\<lambda>entries. CreateTree (opt_owner options) (opt_repo options) baseTreeSha entries"
  let ?commit = "\<lambda>newTreeSha. CreateCommit (opt_owner options) (opt_repo options)
    (opt_message options) newTreeSha [branchSha]"
  let ?update = "\<lambda>commitSha. UpdateRef (opt_owner options) (opt_repo options)
    (''heads/'' @ opt_branch options) commitSha False"
  note defs = await_def createTree_def createCommit_def updateBranch_def request_def
    return_io_def Let_def
  show ?thesis
  proof (cases loop)
    case (Inl e)
    with run loop have "t = s1 @ blobs" by (simp add: defs s2)
    with quiet first loop Inl show ?thesis by auto
  next
    case entries: (Inr entries)
    show ?thesis
    proof (cases "octokit s2 (?tree entries)")
      case (Inl e)
      with run loop entries have "t = s1 @ blobs @ [Remote (?tree entries) (Inl e)]"
        by (simp add: defs s2)
      with quiet first loop entries s2 show ?thesis by auto
    next
      case tree: (Inr newTreeSha)
      show ?thesis
      proof (cases "octokit (s2 @ [Remote (?tree entries) (Inr newTreeSha)]) (?commit newTreeSha)")
        case (Inl e)
        with run loop entries tree have "t = s1 @ blobs @
            [Remote (?tree entries) (Inr newTreeSha), Remote (?commit newTreeSha) (Inl e)]"
          by (simp add: defs s2)
        with quiet first loop entries s2 show ?thesis by auto
      next
        case (Inr commitSha)
        with run loop entries tree have "\<exists>w. t = s1 @ blobs @
            [Remote (?tree entries) (Inr newTreeSha), Remote (?commit newTreeSha) (Inr commitSha),
             Remote (?update commitSha) w]"
          by (auto simp: defs s2 split: sum.splits)
        with quiet first loop entries s2 show ?thesis by auto
      qed
    qed
  qed
qed

text \<open>The first stage, step by step.\<close>

lemma await_request:
  "await (request octokit c) f s =
     (case octokit s c of
        Inl e \<Rightarrow> (Inl e, s @ [Remote c (Inl e)])
      | Inr x \<Rightarrow> f x (s @ [Remote c (Inr x)]))"
  by (simp add: await_def request_def Let_def split: sum.splits)

lemma await_return: "await (return_io x) f s = f x s"
  by (simp add: await_def return_io_def)

lemma await_await: "await (await m g) f s = await m (\<lambda>x. await (g x) f) s"
  by (simp add: await_def split: prod.splits sum.splits)

lemma await_getOctokit:
  "await (github_getOctokit github token) f s =
     (case getOctokit github token of Inl e \<Rightarrow> (Inl e, s) | Inr octokit \<Rightarrow> f octokit s)"
  by (simp add: await_def github_getOctokit_def split: sum.splits)

lemma commitViaAPI_no_client:
  assumes "opt_filePaths options \<noteq> []"
    and "getOctokit github (opt_token options) = Inl e"
  shows "commitViaAPI github fs options s = (Inl e, s)"
  using assms by (simp add: commitViaAPI_def Let_def await_getOctokit)

lemma commitViaAPI_given:
  assumes "opt_filePaths options \<noteq> []"
    and "getOctokit github (opt_token options) = Inr octokit"
    and "truthy (opt_baseSha options)"
  shows "commitViaAPI github fs options s =
     (case octokit s (GetCommit (opt_owner options) (opt_repo options) (the (opt_baseSha options))) of
        Inl e \<Rightarrow> (Inl e, s @ [Remote (GetCommit (opt_owner options) (opt_repo options) (the (opt_baseSha options))) (Inl e)])
      | Inr baseTreeSha \<Rightarrow>
          (await (createTree fs octokit (opt_owner options) (opt_repo options) baseTreeSha
                           (opt_filePaths options)) (\<lambda>newTreeSha.
                    await (createCommit octokit (opt_owner options) (opt_repo options) newTreeSha
                  (the (opt_baseSha options)) (opt_message options)) (\<lambda>commitSha.
                      await (updateBranch octokit (opt_owner options) (opt_repo options)
                               (opt_branch options) commitSha (Some False)) (\<lambda>_.
                        return_io
                          \<lparr>res_commitSha = commitSha, res_treeSha = newTreeSha,
                           res_filesCommitted = length (opt_filePaths options)\<rparr>))))
            (s @ [Remote (GetCommit (opt_owner options) (opt_repo options) (the (opt_baseSha options))) (Inr baseTreeSha)]))"
  using assms
  by (simp add: commitViaAPI_def Let_def await_getOctokit await_await await_request
      await_return split: sum.splits)

lemma commitViaAPI_branch:
  assumes "opt_filePaths options \<noteq> []"
    and "getOctokit github (opt_token options) = Inr octokit"
    and "\<not> truthy (opt_baseSha options)"
  shows "commitViaAPI github fs options s =
     (case octokit s (GetRef (opt_owner options) (opt_repo options) (''heads/'' @ opt_branch options)) of
        Inl e \<Rightarrow> (Inl e, s @ [Remote (GetRef (opt_owner options) (opt_repo options) (''heads/'' @ opt_branch options)) (Inl e)])
      | Inr tip \<Rightarrow>
          (case octokit (s @ [Remote (GetRef (opt_owner options) (opt_repo options) (''heads/'' @ opt_branch options)) (Inr tip)]) (GetCommit (opt_owner options) (opt_repo options) tip) of
             Inl e \<Rightarrow> (Inl e, s @ [Remote (GetRef (opt_owner options) (opt_repo options) (''heads/'' @ opt_branch options)) (Inr tip), Remote (GetCommit (opt_owner options) (opt_repo options) tip) (Inl e)])
           | Inr baseTreeSha \<Rightarrow>
               (await (createTree fs octokit (opt_owner options) (opt_repo options) baseTreeSha
                                (opt_filePaths options)) (\<lambda>newTreeSha.
                         await (createCommit octokit (opt_owner options) (opt_repo options) newTreeSha
                                  tip (opt_message options)) (\<lambda>commitSha.
                           await (updateBranch octokit (opt_owner options) (opt_repo options)
                                    (opt_branch options) commitSha (Some False)) (\<lambda>_.
                             return_io
                               \<lparr>res_commitSha = commitSha, res_treeSha = newTreeSha,
                                res_filesCommitted = length (opt_filePaths options)\<rparr>))))
                 (s @ [Remote (GetRef (opt_owner options) (opt_repo options) (''heads/'' @ opt_branch options)) (Inr tip), Remote (GetCommit (opt_owner options) (opt_repo options) tip) (Inr baseTreeSha)])))"
  using assms
  by (simp add: commitViaAPI_def Let_def getBranchInfo_def await_getOctokit await_await
      await_request await_return split: sum.splits)

lemma given_base:
  assumes nonempty: "opt_filePaths options \<noteq> []"
    and client: "getOctokit github (opt_token options) = Inr octokit"
    and given: "truthy (opt_baseSha options)"
  shows "
     \<exists>r x rest.
       commitViaAPI github fs options s = (r, s @ Remote (GetCommit (opt_owner options) (opt_repo options) (the (opt_baseSha options))) x # rest) \<and>
       x = octokit s (GetCommit (opt_owner options) (opt_repo options) (the (opt_baseSha options))) \<and>
       (\<forall>owner repo ref y. Remote (GetRef owner repo ref) y \<notin> set rest) \<and>
       (\<forall>owner repo commit_sha y. Remote (GetCommit owner repo commit_sha) y \<notin> set rest) \<and>
       (\<forall>e. x = Inl e \<longrightarrow> r = Inl e \<and> rest = []) \<and>
       (\<forall>baseTreeSha. x = Inr baseTreeSha \<longrightarrow>
          (\<exists>found rest''. rest = ExistsSync (hd (opt_filePaths options)) found # rest'') \<and>
          (\<forall>owner repo base_tree entries a.
             Remote (CreateTree owner repo base_tree entries) a \<in> set rest \<longrightarrow> base_tree = baseTreeSha) \<and>
          (\<forall>owner repo message tree parents a.
             Remote (CreateCommit owner repo message tree parents) a \<in> set rest \<longrightarrow> parents = [the (opt_baseSha options)]) \<and>
          (\<forall>entries s2.
             createTree_for fs octokit (opt_owner options) (opt_repo options) (opt_filePaths options) []
               (s @ [Remote (GetCommit (opt_owner options) (opt_repo options) (the (opt_baseSha options))) x]) = (Inr entries, s2) \<longrightarrow>
             (\<exists>created post.
                s @ [Remote (GetCommit (opt_owner options) (opt_repo options) (the (opt_baseSha options))) x] @ rest =
                  s2 @ Remote (CreateTree (opt_owner options) (opt_repo options) baseTreeSha entries) created #
                    post \<and>
                (\<forall>newTreeSha. created = Inr newTreeSha \<longrightarrow>
                   (\<exists>committed post'. post =
                      Remote (CreateCommit (opt_owner options) (opt_repo options) (opt_message options)
                        newTreeSha [the (opt_baseSha options)]) committed # post')))))"
proof (cases "octokit s (GetCommit (opt_owner options) (opt_repo options) (the (opt_baseSha options)))")
  case (Inl e)
  with commitViaAPI_given[OF nonempty client given, of fs s] show ?thesis by simp
next
  case (Inr baseTreeSha)
  obtain r t where run: "commitViaAPI github fs options s = (r, t)"
    by (cases "commitViaAPI github fs options s")
  with commitViaAPI_given[OF nonempty client given, of fs s] Inr have
    "(await (createTree fs octokit (opt_owner options) (opt_repo options) baseTreeSha
                           (opt_filePaths options)) (\<lambda>newTreeSha.
                    await (createCommit octokit (opt_owner options) (opt_repo options) newTreeSha
                             (the (opt_baseSha options)) (opt_message options)) (\<lambda>commitSha.
                      await (updateBranch octokit (opt_owner options) (opt_repo options)
                               (opt_branch options) commitSha (Some False)) (\<lambda>_.
                        return_io
                          \<lparr>res_commitSha = commitSha, res_treeSha = newTreeSha,
                           res_filesCommitted = length (opt_filePaths options)\<rparr>))))
       (s @ [Remote (GetCommit (opt_owner options) (opt_repo options) (the (opt_baseSha options))) (Inr baseTreeSha)]) = (r, t)"
    by simp
  from commit_rest[OF this nonempty] run Inr show ?thesis
    by (elim exE conjE, intro exI[of _ r] exI[of _ "Inr baseTreeSha"]) auto
qed

lemma branch_base:
  assumes nonempty: "opt_filePaths options \<noteq> []"
    and client: "getOctokit github (opt_token options) = Inr octokit"
    and absent: "\<not> truthy (opt_baseSha options)"
  shows "
     \<exists>r x rest.
       commitViaAPI github fs options s = (r, s @ Remote (GetRef (opt_owner options) (opt_repo options) (''heads/'' @ opt_branch options)) x # rest) \<and>
       x = octokit s (GetRef (opt_owner options) (opt_repo options) (''heads/'' @ opt_branch options)) \<and>
       (\<forall>owner repo ref y. Remote (GetRef owner repo ref) y \<notin> set rest) \<and>
       (\<forall>e. x = Inl e \<longrightarrow> r = Inl e \<and> rest = []) \<and>
       (\<forall>tip. x = Inr tip \<longrightarrow>
          (\<exists>y rest'.
             rest = Remote (GetCommit (opt_owner options) (opt_repo options) tip) y # rest' \<and>
             y = octokit (s @ [Remote (GetRef (opt_owner options) (opt_repo options) (''heads/'' @ opt_branch options)) x]) (GetCommit (opt_owner options) (opt_repo options) tip) \<and>
             (\<forall>owner repo commit_sha z. Remote (GetCommit owner repo commit_sha) z \<notin> set rest') \<and>
             (\<forall>e. y = Inl e \<longrightarrow> r = Inl e \<and> rest' = []) \<and>
             (\<forall>baseTreeSha. y = Inr baseTreeSha \<longrightarrow>
                (\<exists>found rest''. rest' = ExistsSync (hd (opt_filePaths options)) found # rest'') \<and>
                (\<forall>owner repo base_tree entries a.
                   Remote (CreateTree owner repo base_tree entries) a \<in> set rest' \<longrightarrow> base_tree = baseTreeSha) \<and>
                (\<forall>owner repo message tree parents a.
                   Remote (CreateCommit owner repo message tree parents) a \<in> set rest' \<longrightarrow> parents = [tip]) \<and>
                (\<forall>entries s2.
                   createTree_for fs octokit (opt_owner options) (opt_repo options) (opt_filePaths options) []
                     (s @ [Remote (GetRef (opt_owner options) (opt_repo options) (''heads/'' @ opt_branch options)) x, Remote (GetCommit (opt_owner options) (opt_repo options) tip) y]) = (Inr entries, s2) \<longrightarrow>
                   (\<exists>created post.
                      s @ [Remote (GetRef (opt_owner options) (opt_repo options) (''heads/'' @ opt_branch options)) x, Remote (GetCommit (opt_owner options) (opt_repo options) tip) y] @ rest' =
                        s2 @ Remote (CreateTree (opt_owner options) (opt_repo options) baseTreeSha entries) created #
                          post \<and>
                      (\<forall>newTreeSha. created = Inr newTreeSha \<longrightarrow>
                         (\<exists>committed post'. post =
                            Remote (CreateCommit (opt_owner options) (opt_repo options) (opt_message options)
                              newTreeSha [tip]) committed # post')))))))"
proof (cases "octokit s (GetRef (opt_owner options) (opt_repo options) (''heads/'' @ opt_branch options))")
  case (Inl e)
  with commitViaAPI_branch[OF nonempty client absent, of fs s] show ?thesis by simp
next
  case ref: (Inr tip)
  show ?thesis
  proof (cases "octokit (s @ [Remote (GetRef (opt_owner options) (opt_repo options) (''heads/'' @ opt_branch options)) (Inr tip)]) (GetCommit (opt_owner options) (opt_repo options) tip)")
    case (Inl e)
    with commitViaAPI_branch[OF nonempty client absent, of fs s] ref show ?thesis by simp
  next
    case (Inr baseTreeSha)
    obtain r t where run: "commitViaAPI github fs options s = (r, t)"
      by (cases "commitViaAPI github fs options s")
    with commitViaAPI_branch[OF nonempty client absent, of fs s] ref Inr have
      "(await (createTree fs octokit (opt_owner options) (opt_repo options) baseTreeSha
                                (opt_filePaths options)) (\<lambda>newTreeSha.
                         await (createCommit octokit (opt_owner options) (opt_repo options) newTreeSha
                                  tip (opt_message options)) (\<lambda>commitSha.
                           await (updateBranch octokit (opt_owner options) (opt_repo options)
                                    (opt_branch options) commitSha (Some False)) (\<lambda>_.
                             return_io
                               \<lparr>res_commitSha = commitSha, res_treeSha = newTreeSha,
                                res_filesCommitted = length (opt_filePaths options)\<rparr>))))
         (s @ [Remote (GetRef (opt_owner options) (opt_repo options) (''heads/'' @ opt_branch options)) (Inr tip), Remote (GetCommit (opt_owner options) (opt_repo options) tip) (Inr baseTreeSha)]) = (r, t)"
      by simp
    from commit_rest[OF this nonempty] run ref Inr show ?thesis
      by (elim exE conjE, intro exI[of _ r] exI[of _ "Inr tip"]) auto
  qed
qed

section \<open>The permission mask\<close>

lemma parseInt_111: "parseInt ''111'' 8 = 73"
  by (simp add: parseInt_def)

lemma bit_73: "bit (73 :: nat) n \<longleftrightarrow> n = 0 \<or> n = 3 \<or> n = 6"
proof (cases "n < 7")
  case True
  then consider "n = 0" | "n = 1" | "n = 2" | "n = 3" | "n = 4" | "n = 5" | "n = 6"
    by linarith
  then show ?thesis by cases (simp_all add: bit_Suc_0_iff)
next
  case False
  then have "(2 :: nat) ^ 7 \<le> 2 ^ n" by (intro power_increasing) simp_all
  then have "(73 :: nat) div 2 ^ n = 0" by simp
  with False show ?thesis by (simp add: bit_iff_odd)
qed

lemma and_73_bits: "(m :: nat) AND 73 = 0 \<longleftrightarrow> \<not> bit m 0 \<and> \<not> bit m 3 \<and> \<not> bit m 6"
proof -
  have "(m AND 73 = 0) \<longleftrightarrow> (\<forall>n. \<not> (bit m n \<and> bit (73 :: nat) n))"
    by (simp add: bit_eq_iff bit_and_iff)
  also have "\<dots> \<longleftrightarrow> \<not> bit m 0 \<and> \<not> bit m 3 \<and> \<not> bit m 6"
    unfolding bit_73 by blast
  finally show ?thesis .
qed

lemma and_73_le: "(m :: nat) AND 73 \<le> 73"
proof -
  have "int m AND 73 \<le> 73" by (rule AND_upper2) simp
  then have "int (m AND 73) \<le> int 73" by (simp add: of_nat_and_eq)
  then show ?thesis by (simp only: of_nat_le_iff)
qed

lemma bitand_truthy_73: "bitand_truthy m 73 \<longleftrightarrow> m AND 73 \<noteq> 0"
proof -
  have "(word_of_nat m :: 32 word) AND word_of_nat 73 = word_of_nat (m AND 73)"
    by (simp add: of_nat_and_eq)
  moreover have "(2 ^ 32 :: nat) dvd m AND 73 \<longleftrightarrow> m AND 73 = 0"
  proof
    assume "(2 ^ 32 :: nat) dvd m AND 73"
    then have "m AND 73 = 0 \<or> 2 ^ 32 \<le> m AND 73" by (auto dest: dvd_imp_le)
    with and_73_le[of m] show "m AND 73 = 0" by simp
  qed simp
  ultimately show ?thesis
    by (simp only: bitand_truthy_def word_of_nat_eq_0_iff) simp
qed

section \<open>The runs of the unit tests\<close>

lemmas run_simps =
  commitViaAPI_def createTree_def createBlob_def createCommit_def updateBranch_def
  getBranchInfo_def await_def return_io_def throw_def request_def github_getOctokit_def
  fs_existsSync_def fs_readFileSync_def fs_statSync_def Let_def

lemmas mock_simps =
  mock_fs_def missing_fs_def mock_octokit_def mock_github_def strict_github_def
  test_options_def Buffer_from_def
  base64_char_def parseInt_def bitand_truthy_def mode_644_def mode_755_def

lemma mock_run_two_files:
  "commitViaAPI mock_github (mock_fs mode_644)
     (test_options [''file1.txt'', ''file2.txt''] None) [] =
   (Inr \<lparr>res_commitSha = ''commit-sha'', res_treeSha = ''new-tree-sha'',
         res_filesCommitted = 2\<rparr>,
    [Remote (GetRef ''owner'' ''repo'' ''heads/dev'') (Inr ''base-sha''),
     Remote (GetCommit ''owner'' ''repo'' ''base-sha'') (Inr ''base-tree-sha''),
     ExistsSync ''file1.txt'' True,
     ReadFileSync ''file1.txt'' (Inr [99, 111, 110, 116, 101, 110, 116]),
     Remote (CreateBlob ''owner'' ''repo'' ''Y29udGVudA=='' ''base64'') (Inr ''blob-sha''),
     StatSync ''file1.txt'' (Inr \<lparr>st_mode = 420\<rparr>),
     ExistsSync ''file2.txt'' True,
     ReadFileSync ''file2.txt'' (Inr [99, 111, 110, 116, 101, 110, 116]),
     Remote (CreateBlob ''owner'' ''repo'' ''Y29udGVudA=='' ''base64'') (Inr ''blob-sha''),
     StatSync ''file2.txt'' (Inr \<lparr>st_mode = 420\<rparr>),
     Remote (CreateTree ''owner'' ''repo'' ''base-tree-sha''
       [\<lparr>entry_path = ''file1.txt'', entry_mode = ''100644'', entry_type = ''blob'',
          entry_sha = ''blob-sha''\<rparr>,
        \<lparr>entry_path = ''file2.txt'', entry_mode = ''100644'', entry_type = ''blob'',
          entry_sha = ''blob-sha''\<rparr>]) (Inr ''new-tree-sha''),
     Remote (CreateCommit ''owner'' ''repo'' ''Test commit'' ''new-tree-sha'' [''base-sha''])
       (Inr ''commit-sha''),
     Remote (UpdateRef ''owner'' ''repo'' ''heads/dev'' ''commit-sha'' False) (Inr [])])"
  by (simp add: run_simps mock_simps)

lemma mock_run_provided_base:
  "commitViaAPI mock_github (mock_fs mode_644)
     (test_options [''file1.txt''] (Some ''provided-base-sha'')) [] =
   (Inr \<lparr>res_commitSha = ''commit-sha'', res_treeSha = ''new-tree-sha'',
         res_filesCommitted = 1\<rparr>,
    [Remote (GetCommit ''owner'' ''repo'' ''provided-base-sha'') (Inr ''base-tree-sha''),
     ExistsSync ''file1.txt'' True,
     ReadFileSync ''file1.txt'' (Inr [99, 111, 110, 116, 101, 110, 116]),
     Remote (CreateBlob ''owner'' ''repo'' ''Y29udGVudA=='' ''base64'') (Inr ''blob-sha''),
     StatSync ''file1.txt'' (Inr \<lparr>st_mode = 420\<rparr>),
     Remote (CreateTree ''owner'' ''repo'' ''base-tree-sha''
       [\<lparr>entry_path = ''file1.txt'', entry_mode = ''100644'', entry_type = ''blob'',
          entry_sha = ''blob-sha''\<rparr>]) (Inr ''new-tree-sha''),
     Remote (CreateCommit ''owner'' ''repo'' ''Test commit'' ''new-tree-sha''
       [''provided-base-sha'']) (Inr ''commit-sha''),
     Remote (UpdateRef ''owner'' ''repo'' ''heads/dev'' ''commit-sha'' False) (Inr [])])"
  by (simp add: run_simps mock_simps)

lemma mock_run_empty_base:
  "commitViaAPI mock_github (mock_fs mode_644) (test_options [''file1.txt''] (Some [])) [] =
   (Inr \<lparr>res_commitSha = ''commit-sha'', res_treeSha = ''new-tree-sha'',
         res_filesCommitted = 1\<rparr>,
    [Remote (GetRef ''owner'' ''repo'' ''heads/dev'') (Inr ''base-sha''),
     Remote (GetCommit ''owner'' ''repo'' ''base-sha'') (Inr ''base-tree-sha''),
     ExistsSync ''file1.txt'' True,
     ReadFileSync ''file1.txt'' (Inr [99, 111, 110, 116, 101, 110, 116]),
     Remote (CreateBlob ''owner'' ''repo'' ''Y29udGVudA=='' ''base64'') (Inr ''blob-sha''),
     StatSync ''file1.txt'' (Inr \<lparr>st_mode = 420\<rparr>),
     Remote (CreateTree ''owner'' ''repo'' ''base-tree-sha''
       [\<lparr>entry_path = ''file1.txt'', entry_mode = ''100644'', entry_type = ''blob'',
          entry_sha = ''blob-sha''\<rparr>]) (Inr ''new-tree-sha''),
     Remote (CreateCommit ''owner'' ''repo'' ''Test commit'' ''new-tree-sha'' [''base-sha''])
       (Inr ''commit-sha''),
     Remote (UpdateRef ''owner'' ''repo'' ''heads/dev'' ''commit-sha'' False) (Inr [])])"
  by (simp add: run_simps mock_simps)

lemma mock_run_repeated_path:
  "commitViaAPI mock_github (mock_fs mode_644) (test_options [''a'', ''a''] None) [] =
   (Inr \<lparr>res_commitSha = ''commit-sha'', res_treeSha = ''new-tree-sha'',
         res_filesCommitted = 2\<rparr>,
    [Remote (GetRef ''owner'' ''repo'' ''heads/dev'') (Inr ''base-sha''),
     Remote (GetCommit ''owner'' ''repo'' ''base-sha'') (Inr ''base-tree-sha''),
     ExistsSync ''a'' True,
     ReadFileSync ''a'' (Inr [99, 111, 110, 116, 101, 110, 116]),
     Remote (CreateBlob ''owner'' ''repo'' ''Y29udGVudA=='' ''base64'') (Inr ''blob-sha''),
     StatSync ''a'' (Inr \<lparr>st_mode = 420\<rparr>),
     ExistsSync ''a'' True,
     ReadFileSync ''a'' (Inr [99, 111, 110, 116, 101, 110, 116]),
     Remote (CreateBlob ''owner'' ''repo'' ''Y29udGVudA=='' ''base64'') (Inr ''blob-sha''),
     StatSync ''a'' (Inr \<lparr>st_mode = 420\<rparr>),
     Remote (CreateTree ''owner'' ''repo'' ''base-tree-sha''
       [\<lparr>entry_path = ''a'', entry_mode = ''100644'', entry_type = ''blob'',
          entry_sha = ''blob-sha''\<rparr>,
        \<lparr>entry_path = ''a'', entry_mode = ''100644'', entry_type = ''blob'',
          entry_sha = ''blob-sha''\<rparr>]) (Inr ''new-tree-sha''),
     Remote (CreateCommit ''owner'' ''repo'' ''Test commit'' ''new-tree-sha'' [''base-sha''])
       (Inr ''commit-sha''),
     Remote (UpdateRef ''owner'' ''repo'' ''heads/dev'' ''commit-sha'' False) (Inr [])])"
  by (simp add: run_simps mock_simps)

lemma mock_blob_regular:
  "createBlob (mock_fs mode_644) mock_octokit ''owner'' ''repo'' ''test.txt'' [] =
   (Inr \<lparr>blob_sha = ''blob-sha'', blob_mode = ''100644''\<rparr>,
    [ExistsSync ''test.txt'' True,
     ReadFileSync ''test.txt'' (Inr [99, 111, 110, 116, 101, 110, 116]),
     Remote (CreateBlob ''owner'' ''repo'' ''Y29udGVudA=='' ''base64'') (Inr ''blob-sha''),
     StatSync ''test.txt'' (Inr \<lparr>st_mode = mode_644\<rparr>)])"
  by (simp add: run_simps mock_simps)

lemma mock_blob_executable:
  "createBlob (mock_fs mode_755) mock_octokit ''owner'' ''repo'' ''test.txt'' [] =
   (Inr \<lparr>blob_sha = ''blob-sha'', blob_mode = ''100755''\<rparr>,
    [ExistsSync ''test.txt'' True,
     ReadFileSync ''test.txt'' (Inr [99, 111, 110, 116, 101, 110, 116]),
     Remote (CreateBlob ''owner'' ''repo'' ''Y29udGVudA=='' ''base64'') (Inr ''blob-sha''),
     StatSync ''test.txt'' (Inr \<lparr>st_mode = mode_755\<rparr>)])"
  by (simp add: run_simps mock_simps)

text \<open>
  The upload loop of the unit tests on one file, started after the base has been looked up:
  from a given base and from the tip of the branch.
\<close>

lemma mock_loop_given:
  "createTree_for (mock_fs mode_644) mock_octokit ''owner'' ''repo'' [''file1.txt''] []
     [Remote (GetCommit ''owner'' ''repo'' ''provided-base-sha'') (Inr ''base-tree-sha'')] =
   (Inr [\<lparr>entry_path = ''file1.txt'', entry_mode = ''100644'', entry_type = ''blob'',
            entry_sha = ''blob-sha''\<rparr>],
    [Remote (GetCommit ''owner'' ''repo'' ''provided-base-sha'') (Inr ''base-tree-sha''),
          ExistsSync ''file1.txt'' True,
          ReadFileSync ''file1.txt'' (Inr [99, 111, 110, 116, 101, 110, 116]),
          Remote (CreateBlob ''owner'' ''repo'' ''Y29udGVudA=='' ''base64'') (Inr ''blob-sha''),
          StatSync ''file1.txt'' (Inr \<lparr>st_mode = 420\<rparr>)])"
  by (simp add: run_simps mock_simps)

lemma mock_loop_branch:
  "createTree_for (mock_fs mode_644) mock_octokit ''owner'' ''repo'' [''file1.txt''] []
     [Remote (GetRef ''owner'' ''repo'' ''heads/dev'') (Inr ''base-sha''),
      Remote (GetCommit ''owner'' ''repo'' ''base-sha'') (Inr ''base-tree-sha'')] =
   (Inr [\<lparr>entry_path = ''file1.txt'', entry_mode = ''100644'', entry_type = ''blob'',
            entry_sha = ''blob-sha''\<rparr>],
    [Remote (GetRef ''owner'' ''repo'' ''heads/dev'') (Inr ''base-sha''),
          Remote (GetCommit ''owner'' ''repo'' ''base-sha'') (Inr ''base-tree-sha''),
          ExistsSync ''file1.txt'' True,
          ReadFileSync ''file1.txt'' (Inr [99, 111, 110, 116, 101, 110, 116]),
          Remote (CreateBlob ''owner'' ''repo'' ''Y29udGVudA=='' ''base64'') (Inr ''blob-sha''),
          StatSync ''file1.txt'' (Inr \<lparr>st_mode = 420\<rparr>)])"
  by (simp add: run_simps mock_simps)

section \<open>Properties of the module\<close>

subsection \<open>Tree entries and blob uploads\<close>

text \<open>
  C1, as amended. In every run of \<^verbatim>\<open>commitViaAPI\<close>, whatever the file system and the
  remote service answer, either no create-tree request is sent and the run fails, or
  exactly one is sent, and then \<^verbatim>\<open>createBlob\<close> has been invoked once for each element of
  \<^verbatim>\<open>filePaths\<close>, in the order of the list, and the entries of the request carry the paths
  of \<^verbatim>\<open>filePaths\<close>, element by element: same length, same order, same set of paths. A path
  that the list repeats is uploaded once per occurrence and has one entry per occurrence;
  when the paths of the list are distinct, so are the invocations and the entries.
\<close>

theorem commitViaAPI_tree_entries:
  "\<exists>r evs. commitViaAPI github fs options s = (r, s @ evs) \<and>
     (tree_calls evs = [] \<and> (\<exists>e. r = Inl e) \<or>
      (\<exists>entries. tree_calls evs = [entries] \<and>
         blob_invocations evs = opt_filePaths options \<and>
         map entry_path entries = opt_filePaths options \<and>
         length entries = length (opt_filePaths options) \<and>
         set (map entry_path entries) = set (opt_filePaths options) \<and>
         (distinct (opt_filePaths options) \<longrightarrow>
            distinct (blob_invocations evs) \<and> distinct (map entry_path entries))))"
proof (cases rule: commitViaAPI_cases[of options github fs s])
  case empty
  then show ?thesis by simp
next
  case (run r evs)
  from commit_run_tree[OF run(3)] show ?thesis
  proof
    assume "tree_calls evs = [] \<and> (\<exists>e. r = Inl e)"
    with run(2) show ?thesis by auto
  next
    assume "\<exists>entries. tree_calls evs = [entries] \<and>
        map entry_path entries = opt_filePaths options \<and>
        blob_invocations evs = opt_filePaths options"
    then obtain entries where entries: "tree_calls evs = [entries]"
      "map entry_path entries = opt_filePaths options"
      "blob_invocations evs = opt_filePaths options"
      by blast
    from entries(2) have "length entries = length (opt_filePaths options)"
      by (metis length_map)
    moreover from entries(2) have "set (map entry_path entries) = set (opt_filePaths options)"
      by (simp only:)
    moreover from entries(2,3) have "distinct (opt_filePaths options) \<longrightarrow>
        distinct (blob_invocations evs) \<and> distinct (map entry_path entries)"
      by (simp only:) simp
    ultimately show ?thesis
      using entries run(2) by blast
  qed
qed

theorem commitViaAPI_tree_entries_witness:
  "distinct (opt_filePaths (test_options [''file1.txt'', ''file2.txt''] None)) \<and>
   (\<exists>entries.
      tree_calls (snd (commitViaAPI mock_github (mock_fs mode_644)
        (test_options [''file1.txt'', ''file2.txt''] None) [])) = [entries] \<and>
      map entry_path entries = [''file1.txt'', ''file2.txt''] \<and>
      distinct (map entry_path entries)) \<and>
   blob_invocations (snd (commitViaAPI mock_github (mock_fs mode_644)
     (test_options [''file1.txt'', ''file2.txt''] None) [])) = [''file1.txt'', ''file2.txt'']"
  using commitViaAPI_tree_entries[of mock_github "mock_fs mode_644"
      "test_options [''file1.txt'', ''file2.txt''] None" "[]"]
  by (simp add: mock_run_two_files; simp add: test_options_def)

text \<open>
  The statement with ``exactly once per distinct path'' and ``no duplicates'' fails on a
  list that names a path twice, such as the value \<^verbatim>\<open>a,a\<close> of \<^verbatim>\<open>FILE_PATHS\<close>: the path is
  uploaded twice and the create-tree request has two entries for it.
\<close>

theorem commitViaAPI_repeated_path:
  "opt_filePaths (test_options [''a'', ''a''] None) \<noteq> [] \<and>
   count_list (blob_invocations (snd (commitViaAPI mock_github (mock_fs mode_644)
     (test_options [''a'', ''a''] None) []))) ''a'' = 2 \<and>
   concat (map (map entry_path) (tree_calls (snd (commitViaAPI mock_github (mock_fs mode_644)
     (test_options [''a'', ''a''] None) [])))) = [''a'', ''a''] \<and>
   \<not> distinct (concat (map (map entry_path) (tree_calls (snd (commitViaAPI mock_github
     (mock_fs mode_644) (test_options [''a'', ''a''] None) [])))))"
  by (simp add: mock_run_repeated_path; simp add: test_options_def)

subsection \<open>Empty input\<close>

text \<open>
  C2. On an empty \<^verbatim>\<open>filePaths\<close> list \<^verbatim>\<open>commitViaAPI\<close> throws
  \<^verbatim>\<open>Error("No files to commit")\<close> and leaves the log as it was: no request is sent, no
  file is touched, nothing is created remotely.
\<close>

theorem commitViaAPI_empty_input:
  assumes "opt_filePaths options = []"
  shows "commitViaAPI github fs options s = (Inl (Error ''No files to commit''), s)"
  using assms by (simp add: commitViaAPI_def throw_def)

theorem commitViaAPI_empty_input_witness:
  "opt_filePaths (test_options [] None) = [] \<and>
   commitViaAPI mock_github (mock_fs mode_644) (test_options [] None) [] =
     (Inl (Error ''No files to commit''), [])"
proof -
  have empty: "opt_filePaths (test_options [] None) = []"
    by (simp add: test_options_def)
  from empty commitViaAPI_empty_input[OF empty] show ?thesis by simp
qed

subsection \<open>Missing files\<close>

text \<open>
  C3. When \<^verbatim>\<open>fs.existsSync\<close> answers that the path does not exist, \<^verbatim>\<open>createBlob\<close> throws
  \<^verbatim>\<open>Error("File not found: " + filePath)\<close> after that single check: the file is not read
  and no request is sent, so the remote calls of the log are unchanged. The error does not
  depend on the moment of the call, on the client, on the owner or on the repository: any
  other call on the same path, while the file is still missing, throws the same error.
\<close>

theorem createBlob_missing_file:
  assumes "\<not> existsSync fs s filePath" and "\<not> existsSync fs s' filePath"
  shows "createBlob fs octokit owner repo filePath s =
           (Inl (Error (''File not found: '' @ filePath)), s @ [ExistsSync filePath False]) \<and>
         remote_calls (snd (createBlob fs octokit owner repo filePath s)) = remote_calls s \<and>
         fst (createBlob fs octokit' owner' repo' filePath s') =
           fst (createBlob fs octokit owner repo filePath s)"
  using assms
  by (simp add: createBlob_def await_def fs_existsSync_def throw_def remote_calls_append)

theorem createBlob_missing_file_witness:
  "\<not> existsSync missing_fs [] ''nonexistent.txt'' \<and>
   \<not> existsSync missing_fs [ExistsSync ''nonexistent.txt'' False] ''nonexistent.txt'' \<and>
   createBlob missing_fs mock_octokit ''owner'' ''repo'' ''nonexistent.txt'' [] =
     (Inl (Error ''File not found: nonexistent.txt''), [ExistsSync ''nonexistent.txt'' False]) \<and>
   fst (createBlob missing_fs mock_octokit ''owner'' ''repo'' ''nonexistent.txt''
          [ExistsSync ''nonexistent.txt'' False]) =
     Inl (Error ''File not found: nonexistent.txt'')"
proof -
  have 1: "\<not> existsSync missing_fs [] ''nonexistent.txt''"
    and 2: "\<not> existsSync missing_fs [ExistsSync ''nonexistent.txt'' False] ''nonexistent.txt''"
    by (simp_all add: missing_fs_def)
  from createBlob_missing_file[OF 1 2, of mock_octokit "''owner''" "''repo''" mock_octokit
      "''owner''" "''repo''"] 1 2
  show ?thesis by simp
qed

subsection \<open>The base commit\<close>

text \<open>
  C4, as amended. On a non-empty list of paths \<^verbatim>\<open>commitViaAPI\<close> first builds the client
  from the token; when that throws, the run fails with the same error and no request is
  sent at all. With a client, there are two cases.

  When \<^verbatim>\<open>baseSha\<close> is a non-empty string, the first request of the run is get-commit for
  exactly that id, and its answer is the one the remote gives in the state of the call; no
  get-ref request and no other get-commit request is ever sent. When the lookup fails the
  run fails with its error and does nothing more. When it answers a tree id, the uploads
  start next, with the first path; every create-tree request has that tree id as its base
  and every create-commit request has \<^verbatim>\<open>baseSha\<close> as its only parent; and when the uploads
  all succeed, create-tree on that tree id with the uploaded entries follows them directly
  and, once it is answered, create-commit with the new tree and the parent \<^verbatim>\<open>baseSha\<close> is
  the next request.

  When \<^verbatim>\<open>baseSha\<close> is absent or the empty string, the first request is get-ref for
  \<^verbatim>\<open>heads/<branch>\<close>, answered by the remote, and no other get-ref request is sent. When
  it fails the run fails with its error and does nothing more. When it answers a commit
  id, the tip, the next request is get-commit for that id, answered by the remote, and it
  is the only get-commit request; when it fails the run fails with its error and does
  nothing more; when it answers a tree id, the run goes on as above with the tip as the
  parent and that tree id as the base.
\<close>

theorem commitViaAPI_base_lookup:
  assumes "opt_filePaths options \<noteq> []"
  shows
   "(\<forall>e. getOctokit github (opt_token options) = Inl e \<longrightarrow>
       commitViaAPI github fs options s = (Inl e, s)) \<and>
    (\<forall>octokit. getOctokit github (opt_token options) = Inr octokit \<longrightarrow>
       (let owner = opt_owner options; repo = opt_repo options; branch = opt_branch options;
            message = opt_message options; filePaths = opt_filePaths options;
            baseSha = opt_baseSha options
        in
        (truthy baseSha \<longrightarrow>
           (\<exists>r x rest.
              commitViaAPI github fs options s = (r, s @ Remote (GetCommit owner repo (the baseSha)) x # rest) \<and>
              x = octokit s (GetCommit owner repo (the baseSha)) \<and>
              (\<forall>owner' repo' ref a. Remote (GetRef owner' repo' ref) a \<notin> set rest) \<and>
              (\<forall>owner' repo' commit_sha a.
                 Remote (GetCommit owner' repo' commit_sha) a \<notin> set rest) \<and>
              (\<forall>e. x = Inl e \<longrightarrow> r = Inl e \<and> rest = []) \<and>
              (\<forall>baseTreeSha. x = Inr baseTreeSha \<longrightarrow>
                 (\<exists>found rest''. rest = ExistsSync (hd filePaths) found # rest'') \<and>
                 (\<forall>owner' repo' base_tree entries a.
                    Remote (CreateTree owner' repo' base_tree entries) a \<in> set rest \<longrightarrow>
                    base_tree = baseTreeSha) \<and>
                 (\<forall>owner' repo' message' tree parents a.
                    Remote (CreateCommit owner' repo' message' tree parents) a \<in> set rest \<longrightarrow>
                    parents = [the baseSha]) \<and>
                 (\<forall>entries s2.
                    createTree_for fs octokit owner repo filePaths []
                      (s @ [Remote (GetCommit owner repo (the baseSha)) x]) =
                      (Inr entries, s2) \<longrightarrow>
                    (\<exists>created post.
                       s @ [Remote (GetCommit owner repo (the baseSha)) x] @ rest =
                         s2 @ Remote (CreateTree owner repo baseTreeSha entries) created # post \<and>
                       (\<forall>newTreeSha. created = Inr newTreeSha \<longrightarrow>
                          (\<exists>committed post'.
                             post =
                               Remote (CreateCommit owner repo message newTreeSha [the baseSha]) committed #
                               post'))))))) \<and>
        (\<not> truthy baseSha \<longrightarrow>
           (\<exists>r x rest.
              commitViaAPI github fs options s = (r, s @ Remote (GetRef owner repo (''heads/'' @ branch)) x # rest) \<and>
              x = octokit s (GetRef owner repo (''heads/'' @ branch)) \<and>
              (\<forall>owner' repo' ref a. Remote (GetRef owner' repo' ref) a \<notin> set rest) \<and>
              (\<forall>e. x = Inl e \<longrightarrow> r = Inl e \<and> rest = []) \<and>
              (\<forall>tip. x = Inr tip \<longrightarrow>
                 (\<exists>y rest'.
                    rest = Remote (GetCommit owner repo tip) y # rest' \<and>
                    y = octokit (s @ [Remote (GetRef owner repo (''heads/'' @ branch)) x]) (GetCommit owner repo tip) \<and>
                    (\<forall>owner' repo' commit_sha a.
                       Remote (GetCommit owner' repo' commit_sha) a \<notin> set rest') \<and>
                    (\<forall>e. y = Inl e \<longrightarrow> r = Inl e \<and> rest' = []) \<and>
                    (\<forall>baseTreeSha. y = Inr baseTreeSha \<longrightarrow>
                       (\<exists>found rest''. rest' = ExistsSync (hd filePaths) found # rest'') \<and>
                       (\<forall>owner' repo' base_tree entries a.
                          Remote (CreateTree owner' repo' base_tree entries) a \<in> set rest' \<longrightarrow>
                          base_tree = baseTreeSha) \<and>
                       (\<forall>owner' repo' message' tree parents a.
                          Remote (CreateCommit owner' repo' message' tree parents) a \<in> set rest' \<longrightarrow>
                          parents = [tip]) \<and>
                       (\<forall>entries s2.
                          createTree_for fs octokit owner repo filePaths []
                            (s @ [Remote (GetRef owner repo (''heads/'' @ branch)) x,
                                 Remote (GetCommit owner repo tip) y]) =
                            (Inr entries, s2) \<longrightarrow>
                          (\<exists>created post.
                             s @ [Remote (GetRef owner repo (''heads/'' @ branch)) x,
                                 Remote (GetCommit owner repo tip) y] @ rest' =
                               s2 @ Remote (CreateTree owner repo baseTreeSha entries) created # post \<and>
                             (\<forall>newTreeSha. created = Inr newTreeSha \<longrightarrow>
                                (\<exists>committed post'.
                                   post =
                                     Remote (CreateCommit owner repo message newTreeSha [tip]) committed #
                                     post')))))))))))"
  unfolding Let_def
  apply (intro conjI allI impI)
    apply (erule commitViaAPI_no_client[OF assms])
   apply (erule (1) given_base[OF assms])
  apply (erule (1) branch_base[OF assms])
  done

theorem commitViaAPI_base_lookup_witness:
  "opt_filePaths (test_options [''file1.txt''] (Some ''provided-base-sha'')) \<noteq> [] \<and>
   getOctokit mock_github (opt_token (test_options [''file1.txt''] (Some ''provided-base-sha''))) =
     Inr mock_octokit \<and>
   truthy (opt_baseSha (test_options [''file1.txt''] (Some ''provided-base-sha''))) \<and>
   (\<exists>r rest.
      commitViaAPI mock_github (mock_fs mode_644)
        (test_options [''file1.txt''] (Some ''provided-base-sha'')) [] =
        (r, Remote (GetCommit ''owner'' ''repo'' ''provided-base-sha'') (Inr ''base-tree-sha'') # rest) \<and>
      (\<forall>owner repo ref y. Remote (GetRef owner repo ref) y \<notin> set rest) \<and>
      (\<forall>owner repo commit_sha y. Remote (GetCommit owner repo commit_sha) y \<notin> set rest) \<and>
      (\<exists>found rest''. rest = ExistsSync ''file1.txt'' found # rest'') \<and>
      (\<exists>created post.
         Remote (GetCommit ''owner'' ''repo'' ''provided-base-sha'') (Inr ''base-tree-sha'') # rest =
         [Remote (GetCommit ''owner'' ''repo'' ''provided-base-sha'') (Inr ''base-tree-sha''),
          ExistsSync ''file1.txt'' True,
          ReadFileSync ''file1.txt'' (Inr [99, 111, 110, 116, 101, 110, 116]),
          Remote (CreateBlob ''owner'' ''repo'' ''Y29udGVudA=='' ''base64'') (Inr ''blob-sha''),
          StatSync ''file1.txt'' (Inr \<lparr>st_mode = 420\<rparr>)] @
         Remote (CreateTree ''owner'' ''repo'' ''base-tree-sha''
           [\<lparr>entry_path = ''file1.txt'', entry_mode = ''100644'', entry_type = ''blob'',
            entry_sha = ''blob-sha''\<rparr>]) created # post)) \<and>
   opt_filePaths (test_options [''file1.txt''] None) \<noteq> [] \<and>
   getOctokit mock_github (opt_token (test_options [''file1.txt''] None)) =
     Inr mock_octokit \<and>
   \<not> truthy (opt_baseSha (test_options [''file1.txt''] None)) \<and>
   (\<exists>r rest.
      commitViaAPI mock_github (mock_fs mode_644)
        (test_options [''file1.txt''] None) [] =
        (r, Remote (GetRef ''owner'' ''repo'' ''heads/dev'') (Inr ''base-sha'') #
            Remote (GetCommit ''owner'' ''repo'' ''base-sha'') (Inr ''base-tree-sha'') # rest) \<and>
      (\<forall>owner repo ref y. Remote (GetRef owner repo ref) y \<notin> set rest) \<and>
      (\<forall>owner repo commit_sha y. Remote (GetCommit owner repo commit_sha) y \<notin> set rest) \<and>
      (\<exists>found rest''. rest = ExistsSync ''file1.txt'' found # rest'') \<and>
      (\<exists>created post.
         Remote (GetRef ''owner'' ''repo'' ''heads/dev'') (Inr ''base-sha'') #
         Remote (GetCommit ''owner'' ''repo'' ''base-sha'') (Inr ''base-tree-sha'') # rest =
         [Remote (GetRef ''owner'' ''repo'' ''heads/dev'') (Inr ''base-sha''),
          Remote (GetCommit ''owner'' ''repo'' ''base-sha'') (Inr ''base-tree-sha''),
          ExistsSync ''file1.txt'' True,
          ReadFileSync ''file1.txt'' (Inr [99, 111, 110, 116, 101, 110, 116]),
          Remote (CreateBlob ''owner'' ''repo'' ''Y29udGVudA=='' ''base64'') (Inr ''blob-sha''),
          StatSync ''file1.txt'' (Inr \<lparr>st_mode = 420\<rparr>)] @
         Remote (CreateTree ''owner'' ''repo'' ''base-tree-sha''
           [\<lparr>entry_path = ''file1.txt'', entry_mode = ''100644'', entry_type = ''blob'',
            entry_sha = ''blob-sha''\<rparr>]) created # post)) \<and>
   getOctokit strict_github
     (opt_token ((test_options [''file1.txt''] (Some ''provided-base-sha''))\<lparr>opt_token := []\<rparr>)) =
     Inl (Error ''Parameter token or opts.auth is required'') \<and>
   commitViaAPI strict_github (mock_fs mode_644)
     ((test_options [''file1.txt''] (Some ''provided-base-sha''))\<lparr>opt_token := []\<rparr>) [] =
     (Inl (Error ''Parameter token or opts.auth is required''), [])"
proof -
  have given: "opt_filePaths (test_options [''file1.txt''] (Some ''provided-base-sha'')) \<noteq> []"
    "getOctokit mock_github (opt_token (test_options [''file1.txt''] (Some ''provided-base-sha''))) =
       Inr mock_octokit"
    "truthy (opt_baseSha (test_options [''file1.txt''] (Some ''provided-base-sha'')))"
    by (simp_all add: test_options_def mock_github_def)
  have absent: "opt_filePaths (test_options [''file1.txt''] None) \<noteq> []"
    "getOctokit mock_github (opt_token (test_options [''file1.txt''] None)) =
       Inr mock_octokit"
    "\<not> truthy (opt_baseSha (test_options [''file1.txt''] None))"
    by (simp_all add: test_options_def mock_github_def)
  have strict: "opt_filePaths ((test_options [''file1.txt''] (Some ''provided-base-sha''))\<lparr>opt_token := []\<rparr>) \<noteq> []"
    "getOctokit strict_github
       (opt_token ((test_options [''file1.txt''] (Some ''provided-base-sha''))\<lparr>opt_token := []\<rparr>)) =
       Inl (Error ''Parameter token or opts.auth is required'')"
    by (simp_all add: test_options_def strict_github_def)
  from commitViaAPI_base_lookup[OF given(1), of mock_github "mock_fs mode_644" "[]", unfolded Let_def,
      THEN conjunct2, rule_format, OF given(2), THEN conjunct1, rule_format, OF given(3)]
  have 1: "(\<exists>r rest.
      commitViaAPI mock_github (mock_fs mode_644)
        (test_options [''file1.txt''] (Some ''provided-base-sha'')) [] =
        (r, Remote (GetCommit ''owner'' ''repo'' ''provided-base-sha'') (Inr ''base-tree-sha'') # rest) \<and>
      (\<forall>owner repo ref y. Remote (GetRef owner repo ref) y \<notin> set rest) \<and>
      (\<forall>owner repo commit_sha y. Remote (GetCommit owner repo commit_sha) y \<notin> set rest) \<and>
      (\<exists>found rest''. rest = ExistsSync ''file1.txt'' found # rest'') \<and>
      (\<exists>created post.
         Remote (GetCommit ''owner'' ''repo'' ''provided-base-sha'') (Inr ''base-tree-sha'') # rest =
         [Remote (GetCommit ''owner'' ''repo'' ''provided-base-sha'') (Inr ''base-tree-sha''),
          ExistsSync ''file1.txt'' True,
          ReadFileSync ''file1.txt'' (Inr [99, 111, 110, 116, 101, 110, 116]),
          Remote (CreateBlob ''owner'' ''repo'' ''Y29udGVudA=='' ''base64'') (Inr ''blob-sha''),
          StatSync ''file1.txt'' (Inr \<lparr>st_mode = 420\<rparr>)] @
         Remote (CreateTree ''owner'' ''repo'' ''base-tree-sha''
           [\<lparr>entry_path = ''file1.txt'', entry_mode = ''100644'', entry_type = ''blob'',
            entry_sha = ''blob-sha''\<rparr>]) created # post))"
    apply (elim exE conjE)
    subgoal for r x rest
      apply (rule exI[of _ r], rule exI[of _ rest])
      apply (simp add: test_options_def mock_octokit_def mock_loop_given mock_loop_branch
            del: createTree_for.simps)
      apply (elim exE conjE, (rule exI)+, assumption)
      done
    done
  from commitViaAPI_base_lookup[OF absent(1), of mock_github "mock_fs mode_644" "[]", unfolded Let_def,
      THEN conjunct2, rule_format, OF absent(2), THEN conjunct2, rule_format, OF absent(3)]
  have 2: "(\<exists>r rest.
      commitViaAPI mock_github (mock_fs mode_644)
        (test_options [''file1.txt''] None) [] =
        (r, Remote (GetRef ''owner'' ''repo'' ''heads/dev'') (Inr ''base-sha'') #
            Remote (GetCommit ''owner'' ''repo'' ''base-sha'') (Inr ''base-tree-sha'') # rest) \<and>
      (\<forall>owner repo ref y. Remote (GetRef owner repo ref) y \<notin> set rest) \<and>
      (\<forall>owner repo commit_sha y. Remote (GetCommit owner repo commit_sha) y \<notin> set rest) \<and>
      (\<exists>found rest''. rest = ExistsSync ''file1.txt'' found # rest'') \<and>
      (\<exists>created post.
         Remote (GetRef ''owner'' ''repo'' ''heads/dev'') (Inr ''base-sha'') #
         Remote (GetCommit ''owner'' ''repo'' ''base-sha'') (Inr ''base-tree-sha'') # rest =
         [Remote (GetRef ''owner'' ''repo'' ''heads/dev'') (Inr ''base-sha''),
          Remote (GetCommit ''owner'' ''repo'' ''base-sha'') (Inr ''base-tree-sha''),
          ExistsSync ''file1.txt'' True,
          ReadFileSync ''file1.txt'' (Inr [99, 111, 110, 116, 101, 110, 116]),
          Remote (CreateBlob ''owner'' ''repo'' ''Y29udGVudA=='' ''base64'') (Inr ''blob-sha''),
          StatSync ''file1.txt'' (Inr \<lparr>st_mode = 420\<rparr>)] @
         Remote (CreateTree ''owner'' ''repo'' ''base-tree-sha''
           [\<lparr>entry_path = ''file1.txt'', entry_mode = ''100644'', entry_type = ''blob'',
            entry_sha = ''blob-sha''\<rparr>]) created # post))"
    apply (elim exE conjE)
    subgoal for r x rest
      apply (clarsimp simp add: test_options_def mock_octokit_def mock_loop_branch
          simp del: createTree_for.simps)
      apply (rule exI[of _ True], rule TrueI)
      done
    done
  from commitViaAPI_base_lookup[OF strict(1), of strict_github "mock_fs mode_644" "[]", unfolded Let_def,
      THEN conjunct1, rule_format, OF strict(2)]
  have 3: "commitViaAPI strict_github (mock_fs mode_644)
     ((test_options [''file1.txt''] (Some ''provided-base-sha''))\<lparr>opt_token := []\<rparr>) [] =
     (Inl (Error ''Parameter token or opts.auth is required''), [])" .
  from given 1 absent 2 strict(2) 3 show ?thesis by (intro conjI)
qed

text \<open>
  A base id that is supplied as the empty string does not suppress the branch lookup: the
  first request is get-ref.
\<close>

theorem commitViaAPI_empty_baseSha_calls_getRef:
  "opt_baseSha (test_options [''file1.txt''] (Some [])) = Some [] \<and>
   remote_calls (snd (commitViaAPI mock_github (mock_fs mode_644)
     (test_options [''file1.txt''] (Some [])) [])) ! 0 = GetRef ''owner'' ''repo'' ''heads/dev''"
  by (simp add: mock_run_empty_base; simp add: test_options_def)

subsection \<open>File modes\<close>

text \<open>
  C5. A successful \<^verbatim>\<open>createBlob\<close> has checked the path, read the file, sent its content
  in base64 and then read its \<^verbatim>\<open>stats\<close>; the mode it returns is \<^verbatim>\<open>"100755"\<close> if the
  mode of those \<^verbatim>\<open>stats\<close> has a bit of the mask \<^verbatim>\<open>0o111\<close> (bit 0, 3 or 6: execute for
  others, group or owner) and \<^verbatim>\<open>"100644"\<close> otherwise. It depends on nothing else. The
  mask \<^verbatim>\<open>0o644\<close> gives \<^verbatim>\<open>"100644"\<close> and the mask \<^verbatim>\<open>0o755\<close> gives \<^verbatim>\<open>"100755"\<close>.
\<close>

theorem createBlob_mode:
  assumes "createBlob fs octokit owner repo filePath s = (Inr b, t)"
  shows "\<exists>content st.
     t = s @ [ExistsSync filePath True, ReadFileSync filePath (Inr content),
              Remote (CreateBlob owner repo (toString_base64 content) ''base64'')
                (Inr (blob_sha b)),
              StatSync filePath (Inr st)] \<and>
     blob_mode b = (if st_mode st AND S_IXUGO \<noteq> 0 then ''100755'' else ''100644'') \<and>
     (blob_mode b = ''100755'' \<longleftrightarrow>
        bit (st_mode st) 0 \<or> bit (st_mode st) 3 \<or> bit (st_mode st) 6) \<and>
     (st_mode st = mode_644 \<longrightarrow> blob_mode b = ''100644'') \<and>
     (st_mode st = mode_755 \<longrightarrow> blob_mode b = ''100755'')"
proof -
  from createBlob_success[OF assms] obtain content st where
    t: "t = s @ [ExistsSync filePath True, ReadFileSync filePath (Inr content),
              Remote (CreateBlob owner repo (toString_base64 content) ''base64'')
                (Inr (blob_sha b)),
              StatSync filePath (Inr st)]"
    and mode: "blob_mode b =
      (if bitand_truthy (st_mode st) (parseInt ''111'' 8) then ''100755'' else ''100644'')"
    by blast
  have mask: "bitand_truthy (st_mode st) (parseInt ''111'' 8) \<longleftrightarrow> st_mode st AND S_IXUGO \<noteq> 0"
    by (simp add: S_IXUGO_def parseInt_111 bitand_truthy_73)
  have bits: "st_mode st AND S_IXUGO \<noteq> 0 \<longleftrightarrow>
      bit (st_mode st) 0 \<or> bit (st_mode st) 3 \<or> bit (st_mode st) 6"
    by (simp add: S_IXUGO_def parseInt_111 and_73_bits)
  have masks: "mode_644 AND S_IXUGO = 0" "mode_755 AND S_IXUGO \<noteq> 0"
    by (simp_all add: mode_644_def mode_755_def S_IXUGO_def parseInt_def)
  from mode mask have m1:
    "blob_mode b = (if st_mode st AND S_IXUGO \<noteq> 0 then ''100755'' else ''100644'')"
    by simp
  have m2: "blob_mode b = ''100755'' \<longleftrightarrow>
      bit (st_mode st) 0 \<or> bit (st_mode st) 3 \<or> bit (st_mode st) 6"
  proof (cases "st_mode st AND S_IXUGO = 0")
    case True
    with m1 have "blob_mode b = ''100644''" by simp
    with True bits show ?thesis by simp
  next
    case False
    with m1 have "blob_mode b = ''100755''" by simp
    with False bits show ?thesis by simp
  qed
  from m1 masks have m3: "st_mode st = mode_644 \<longrightarrow> blob_mode b = ''100644''"
    and m4: "st_mode st = mode_755 \<longrightarrow> blob_mode b = ''100755''"
    by simp_all
  from t m1 m2 m3 m4 show ?thesis by blast
qed

theorem createBlob_mode_witness:
  "createBlob (mock_fs mode_644) mock_octokit ''owner'' ''repo'' ''test.txt'' [] =
     (Inr \<lparr>blob_sha = ''blob-sha'', blob_mode = ''100644''\<rparr>,
      [ExistsSync ''test.txt'' True,
       ReadFileSync ''test.txt'' (Inr [99, 111, 110, 116, 101, 110, 116]),
       Remote (CreateBlob ''owner'' ''repo'' ''Y29udGVudA=='' ''base64'') (Inr ''blob-sha''),
       StatSync ''test.txt'' (Inr \<lparr>st_mode = mode_644\<rparr>)]) \<and>
   \<not> bit mode_644 0 \<and> \<not> bit mode_644 3 \<and> \<not> bit mode_644 6 \<and>
   createBlob (mock_fs mode_755) mock_octokit ''owner'' ''repo'' ''test.txt'' [] =
     (Inr \<lparr>blob_sha = ''blob-sha'', blob_mode = ''100755''\<rparr>,
      [ExistsSync ''test.txt'' True,
       ReadFileSync ''test.txt'' (Inr [99, 111, 110, 116, 101, 110, 116]),
       Remote (CreateBlob ''owner'' ''repo'' ''Y29udGVudA=='' ''base64'') (Inr ''blob-sha''),
       StatSync ''test.txt'' (Inr \<lparr>st_mode = mode_755\<rparr>)]) \<and>
   (bit mode_755 0 \<or> bit mode_755 3 \<or> bit mode_755 6)"
  using createBlob_mode[OF mock_blob_regular] createBlob_mode[OF mock_blob_executable]
    mock_blob_regular mock_blob_executable
  by auto

subsection \<open>Tree and parent from one base\<close>

text \<open>
  C6. The log of a successful run is: the lookup of the base, ending with the get-commit
  request for the base commit \<open>branchSha\<close>, answered with its tree \<open>baseTreeSha\<close>; the
  uploads of the blobs; the create-tree request on \<open>baseTreeSha\<close>; the create-commit
  request on the new tree with the single parent \<open>branchSha\<close>; the update of the branch.
  The base commit is \<^verbatim>\<open>baseSha\<close> when that is a non-empty string and the answer of get-ref
  otherwise. So the new tree is built on the tree of the very commit that becomes the
  parent.
\<close>

theorem commitViaAPI_same_base:
  assumes "commitViaAPI github fs options s = (Inr res, t)"
  shows "\<exists>pre branchSha baseTreeSha blobs entries x.
     t = s @ pre @
       [Remote (GetCommit (opt_owner options) (opt_repo options) branchSha) (Inr baseTreeSha)] @
       blobs @
       [Remote (CreateTree (opt_owner options) (opt_repo options) baseTreeSha entries)
          (Inr (res_treeSha res)),
        Remote (CreateCommit (opt_owner options) (opt_repo options) (opt_message options)
          (res_treeSha res) [branchSha]) (Inr (res_commitSha res)),
        Remote (UpdateRef (opt_owner options) (opt_repo options)
          (''heads/'' @ opt_branch options) (res_commitSha res) False) (Inr x)] \<and>
     (pre = [] \<and> opt_baseSha options = Some branchSha \<and> branchSha \<noteq> [] \<or>
      pre = [Remote (GetRef (opt_owner options) (opt_repo options)
               (''heads/'' @ opt_branch options)) (Inr branchSha)] \<and>
      \<not> truthy (opt_baseSha options)) \<and>
     list_all is_CreateBlob (remote_calls blobs)"
proof -
  from assms have nonempty: "opt_filePaths options \<noteq> []"
    by (auto simp: commitViaAPI_def throw_def)
  from commitViaAPI_run[OF assms nonempty] obtain evs where
    t: "t = s @ evs" and "commit_run options (Inr res) evs" by blast
  from commit_run_success[OF this(2)] obtain pre blobs branchSha baseTreeSha entries x where
    evs: "evs = pre @ blobs @
       [Remote (CreateTree (opt_owner options) (opt_repo options) baseTreeSha entries)
          (Inr (res_treeSha res)),
        Remote (CreateCommit (opt_owner options) (opt_repo options) (opt_message options)
          (res_treeSha res) [branchSha]) (Inr (res_commitSha res)),
        Remote (UpdateRef (opt_owner options) (opt_repo options)
          (''heads/'' @ opt_branch options) (res_commitSha res) False) (Inr x)]"
    and pre: "resolve_run options (Inr (branchSha, baseTreeSha)) pre"
    and blobs: "list_all is_CreateBlob (remote_calls blobs)"
    by blast
  from pre show ?thesis
  proof cases
    case given_resolved
    from given_resolved(1,3) have "opt_baseSha options = Some branchSha" "branchSha \<noteq> []"
      by (cases "opt_baseSha options"; simp)+
    with given_resolved(1,2) t evs blobs show ?thesis
      by (intro exI[of _ "[]"] exI[of _ branchSha] exI[of _ baseTreeSha] exI[of _ blobs]
          exI[of _ entries] exI[of _ x]) simp
  next
    case tip_resolved
    with t evs blobs show ?thesis
      by (intro exI[of _ "[Remote (GetRef (opt_owner options) (opt_repo options)
               (''heads/'' @ opt_branch options)) (Inr branchSha)]"]
          exI[of _ branchSha] exI[of _ baseTreeSha] exI[of _ blobs]
          exI[of _ entries] exI[of _ x]) simp
  qed
qed

theorem commitViaAPI_same_base_witness:
  "commitViaAPI mock_github (mock_fs mode_644)
     (test_options [''file1.txt''] (Some ''provided-base-sha'')) [] =
   (Inr \<lparr>res_commitSha = ''commit-sha'', res_treeSha = ''new-tree-sha'',
         res_filesCommitted = 1\<rparr>,
    snd (commitViaAPI mock_github (mock_fs mode_644)
      (test_options [''file1.txt''] (Some ''provided-base-sha'')) [])) \<and>
   (\<exists>pre branchSha baseTreeSha blobs entries x.
      snd (commitViaAPI mock_github (mock_fs mode_644)
        (test_options [''file1.txt''] (Some ''provided-base-sha'')) []) =
      pre @ [Remote (GetCommit ''owner'' ''repo'' branchSha) (Inr baseTreeSha)] @ blobs @
        [Remote (CreateTree ''owner'' ''repo'' baseTreeSha entries) (Inr ''new-tree-sha''),
         Remote (CreateCommit ''owner'' ''repo'' ''Test commit'' ''new-tree-sha'' [branchSha])
           (Inr ''commit-sha''),
         Remote (UpdateRef ''owner'' ''repo'' ''heads/dev'' ''commit-sha'' False) (Inr x)])"
proof -
  have run: "commitViaAPI mock_github (mock_fs mode_644)
     (test_options [''file1.txt''] (Some ''provided-base-sha'')) [] =
   (Inr \<lparr>res_commitSha = ''commit-sha'', res_treeSha = ''new-tree-sha'',
         res_filesCommitted = 1\<rparr>,
    snd (commitViaAPI mock_github (mock_fs mode_644)
      (test_options [''file1.txt''] (Some ''provided-base-sha'')) []))"
    by (simp add: mock_run_provided_base)
  from commitViaAPI_same_base[OF run]
  have "\<exists>pre branchSha baseTreeSha blobs entries x.
      snd (commitViaAPI mock_github (mock_fs mode_644)
        (test_options [''file1.txt''] (Some ''provided-base-sha'')) []) =
      pre @ [Remote (GetCommit ''owner'' ''repo'' branchSha) (Inr baseTreeSha)] @ blobs @
        [Remote (CreateTree ''owner'' ''repo'' baseTreeSha entries) (Inr ''new-tree-sha''),
         Remote (CreateCommit ''owner'' ''repo'' ''Test commit'' ''new-tree-sha'' [branchSha])
           (Inr ''commit-sha''),
         Remote (UpdateRef ''owner'' ''repo'' ''heads/dev'' ''commit-sha'' False) (Inr x)]"
    apply (elim exE conjE)
    subgoal for pre branchSha baseTreeSha blobs entries x
      by (intro exI[of _ pre] exI[of _ branchSha] exI[of _ baseTreeSha] exI[of _ blobs]
          exI[of _ entries] exI[of _ x])
         (simp add: test_options_def)
    done
  with run show ?thesis by (intro conjI)
qed

subsection \<open>No forced update\<close>

text \<open>
  C7. \<^verbatim>\<open>updateBranch\<close> without its last argument behaves as with \<^verbatim>\<open>force = false\<close> and
  sends update-ref with \<^verbatim>\<open>force: false\<close>. In every run of \<^verbatim>\<open>commitViaAPI\<close>, successful or
  not, every update-ref request has \<^verbatim>\<open>force: false\<close>; a successful run ends with the
  update-ref request for the branch, the new commit and \<^verbatim>\<open>force: false\<close>.
\<close>

theorem updateRef_never_forced:
  "updateBranch octokit owner repo branch commitSha None s =
     updateBranch octokit owner repo branch commitSha (Some False) s \<and>
   (\<exists>x. snd (updateBranch octokit owner repo branch commitSha None s) =
      s @ [Remote (UpdateRef owner repo (''heads/'' @ branch) commitSha False) x]) \<and>
   (\<exists>r evs. commitViaAPI github fs options s = (r, s @ evs) \<and>
      (\<forall>owner' repo' ref sha force x.
         Remote (UpdateRef owner' repo' ref sha force) x \<in> set evs \<longrightarrow> \<not> force) \<and>
      (\<forall>res. r = Inr res \<longrightarrow>
         (\<exists>x. last evs =
            Remote (UpdateRef (opt_owner options) (opt_repo options)
              (''heads/'' @ opt_branch options) (res_commitSha res) False) (Inr x))))"
proof (intro conjI)
  show "updateBranch octokit owner repo branch commitSha None s =
     updateBranch octokit owner repo branch commitSha (Some False) s"
    by (simp add: updateBranch_def)
  show "\<exists>x. snd (updateBranch octokit owner repo branch commitSha None s) =
      s @ [Remote (UpdateRef owner repo (''heads/'' @ branch) commitSha False) x]"
    by (simp add: updateBranch_def await_def request_def return_io_def Let_def
        split: sum.splits)
  show "\<exists>r evs. commitViaAPI github fs options s = (r, s @ evs) \<and>
      (\<forall>owner' repo' ref sha force x.
         Remote (UpdateRef owner' repo' ref sha force) x \<in> set evs \<longrightarrow> \<not> force) \<and>
      (\<forall>res. r = Inr res \<longrightarrow>
         (\<exists>x. last evs =
            Remote (UpdateRef (opt_owner options) (opt_repo options)
              (''heads/'' @ opt_branch options) (res_commitSha res) False) (Inr x)))"
  proof (cases rule: commitViaAPI_cases[of options github fs s])
    case empty
    then show ?thesis by simp
  next
    case (run r evs)
    from run(3) show ?thesis
      unfolding run(2)
      by (cases rule: commit_run.cases)
         (auto elim!: resolve_run.cases finish_run.cases simp: blobs_remote)
  qed
qed

theorem updateRef_never_forced_witness:
  "Remote (UpdateRef ''owner'' ''repo'' ''heads/dev'' ''commit-sha'' False) (Inr [])
     \<in> set (snd (commitViaAPI mock_github (mock_fs mode_644)
         (test_options [''file1.txt'', ''file2.txt''] None) [])) \<and>
   Remote (UpdateRef ''owner'' ''repo'' ''heads/dev'' ''commit-sha'' True) (Inr [])
     \<notin> set (snd (commitViaAPI mock_github (mock_fs mode_644)
         (test_options [''file1.txt'', ''file2.txt''] None) []))"
proof -
  from updateRef_never_forced[where octokit = mock_octokit and owner = "''owner''"
      and repo = "''repo''" and branch = "''dev''" and commitSha = "''commit-sha''"
      and github = mock_github and fs = "mock_fs mode_644"
      and options = "test_options [''file1.txt'', ''file2.txt''] None" and s = "[]"]
  have "\<forall>owner repo ref sha force x.
      Remote (UpdateRef owner repo ref sha force) x
        \<in> set (snd (commitViaAPI mock_github (mock_fs mode_644)
            (test_options [''file1.txt'', ''file2.txt''] None) [])) \<longrightarrow> \<not> force"
    by (elim exE conjE) simp
  then have
    "Remote (UpdateRef ''owner'' ''repo'' ''heads/dev'' ''commit-sha'' True) (Inr [])
     \<notin> set (snd (commitViaAPI mock_github (mock_fs mode_644)
         (test_options [''file1.txt'', ''file2.txt''] None) []))"
    by blast
  moreover have
    "Remote (UpdateRef ''owner'' ''repo'' ''heads/dev'' ''commit-sha'' False) (Inr [])
     \<in> set (snd (commitViaAPI mock_github (mock_fs mode_644)
         (test_options [''file1.txt'', ''file2.txt''] None) []))"
    by (simp add: mock_run_two_files)
  ultimately show ?thesis by (intro conjI)
qed

subsection \<open>One parent\<close>

text \<open>
  C8. \<^verbatim>\<open>createCommit\<close> sends one create-commit request, whose \<^verbatim>\<open>parents\<close> is the
  one-element list of \<^verbatim>\<open>parentSha\<close>, for all arguments. In every run of \<^verbatim>\<open>commitViaAPI\<close>
  every create-commit request has exactly one parent.
\<close>

theorem createCommit_single_parent:
  "(\<exists>x. createCommit octokit owner repo treeSha parentSha message s =
      (x, s @ [Remote (CreateCommit owner repo message treeSha [parentSha]) x])) \<and>
   (\<exists>r evs. commitViaAPI github fs options s = (r, s @ evs) \<and>
      (\<forall>owner' repo' message' tree parents x.
         Remote (CreateCommit owner' repo' message' tree parents) x \<in> set evs \<longrightarrow>
         (\<exists>parent. parents = [parent])))"
proof (intro conjI)
  show "\<exists>x. createCommit octokit owner repo treeSha parentSha message s =
      (x, s @ [Remote (CreateCommit owner repo message treeSha [parentSha]) x])"
    by (simp add: createCommit_def request_def Let_def)
  show "\<exists>r evs. commitViaAPI github fs options s = (r, s @ evs) \<and>
      (\<forall>owner' repo' message' tree parents x.
         Remote (CreateCommit owner' repo' message' tree parents) x \<in> set evs \<longrightarrow>
         (\<exists>parent. parents = [parent]))"
  proof (cases rule: commitViaAPI_cases[of options github fs s])
    case empty
    then show ?thesis by simp
  next
    case (run r evs)
    from run(3) show ?thesis
      unfolding run(2)
      by (cases rule: commit_run.cases)
         (auto elim!: resolve_run.cases finish_run.cases simp: blobs_remote)
  qed
qed

theorem createCommit_single_parent_witness:
  "Remote (CreateCommit ''owner'' ''repo'' ''Test commit'' ''new-tree-sha'' [''base-sha''])
     (Inr ''commit-sha'')
     \<in> set (snd (commitViaAPI mock_github (mock_fs mode_644)
         (test_options [''file1.txt'', ''file2.txt''] None) [])) \<and>
   Remote (CreateCommit ''owner'' ''repo'' ''Test commit'' ''new-tree-sha'' [])
     (Inr ''commit-sha'')
     \<notin> set (snd (commitViaAPI mock_github (mock_fs mode_644)
         (test_options [''file1.txt'', ''file2.txt''] None) [])) \<and>
   Remote (CreateCommit ''owner'' ''repo'' ''Test commit'' ''new-tree-sha''
       [''base-sha'', ''base-sha'']) (Inr ''commit-sha'')
     \<notin> set (snd (commitViaAPI mock_github (mock_fs mode_644)
         (test_options [''file1.txt'', ''file2.txt''] None) []))"
proof -
  from createCommit_single_parent[where octokit = mock_octokit and owner = "''owner''"
      and repo = "''repo''" and treeSha = "''new-tree-sha''" and parentSha = "''base-sha''"
      and message = "''Test commit''" and github = mock_github and fs = "mock_fs mode_644"
      and options = "test_options [''file1.txt'', ''file2.txt''] None" and s = "[]"]
  have single: "\<forall>owner repo message tree parents x.
      Remote (CreateCommit owner repo message tree parents) x
        \<in> set (snd (commitViaAPI mock_github (mock_fs mode_644)
            (test_options [''file1.txt'', ''file2.txt''] None) [])) \<longrightarrow>
      (\<exists>parent. parents = [parent])"
    by (elim exE conjE) simp
  have "Remote (CreateCommit ''owner'' ''repo'' ''Test commit'' ''new-tree-sha'' [])
     (Inr ''commit-sha'')
     \<notin> set (snd (commitViaAPI mock_github (mock_fs mode_644)
         (test_options [''file1.txt'', ''file2.txt''] None) []))"
    using single by blast
  moreover have "Remote (CreateCommit ''owner'' ''repo'' ''Test commit'' ''new-tree-sha''
       [''base-sha'', ''base-sha'']) (Inr ''commit-sha'')
     \<notin> set (snd (commitViaAPI mock_github (mock_fs mode_644)
         (test_options [''file1.txt'', ''file2.txt''] None) []))"
    using single by blast
  moreover have
    "Remote (CreateCommit ''owner'' ''repo'' ''Test commit'' ''new-tree-sha'' [''base-sha''])
     (Inr ''commit-sha'')
     \<in> set (snd (commitViaAPI mock_github (mock_fs mode_644)
         (test_options [''file1.txt'', ''file2.txt''] None) []))"
    by (simp add: mock_run_two_files)
  ultimately show ?thesis by (intro conjI)
qed

subsection \<open>The result\<close>

text \<open>
  C9. A successful run of \<^verbatim>\<open>commitViaAPI\<close> ends with its only create-tree request, its
  only create-commit request and the update of the branch; \<^verbatim>\<open>treeSha\<close> of the result is
  the answer to the create-tree request, \<^verbatim>\<open>commitSha\<close> the answer to the create-commit
  request and \<^verbatim>\<open>filesCommitted\<close> the length of \<^verbatim>\<open>filePaths\<close>. With the mocks of the unit
  test and the paths \<^verbatim>\<open>file1.txt\<close> and \<^verbatim>\<open>file2.txt\<close> the result is \<^verbatim>\<open>commit-sha\<close>,
  \<^verbatim>\<open>new-tree-sha\<close> and 2, and the last request is update-ref with \<^verbatim>\<open>force: false\<close>.
\<close>

theorem commitViaAPI_result:
  "(commitViaAPI github fs options s = (Inr res, t) \<longrightarrow>
      (\<exists>evs base_tree entries parent x.
         t = s @ evs @
           [Remote (CreateTree (opt_owner options) (opt_repo options) base_tree entries)
              (Inr (res_treeSha res)),
            Remote (CreateCommit (opt_owner options) (opt_repo options) (opt_message options)
              (res_treeSha res) [parent]) (Inr (res_commitSha res)),
            Remote (UpdateRef (opt_owner options) (opt_repo options)
              (''heads/'' @ opt_branch options) (res_commitSha res) False) (Inr x)] \<and>
         tree_calls evs = [] \<and>
         (\<forall>owner repo message tree parents y.
            Remote (CreateCommit owner repo message tree parents) y \<notin> set evs)) \<and>
      res_filesCommitted res = length (opt_filePaths options)) \<and>
   fst (commitViaAPI mock_github (mock_fs mode_644)
          (test_options [''file1.txt'', ''file2.txt''] None) []) =
     Inr \<lparr>res_commitSha = ''commit-sha'', res_treeSha = ''new-tree-sha'',
           res_filesCommitted = 2\<rparr> \<and>
   last (snd (commitViaAPI mock_github (mock_fs mode_644)
          (test_options [''file1.txt'', ''file2.txt''] None) [])) =
     Remote (UpdateRef ''owner'' ''repo'' ''heads/dev'' ''commit-sha'' False) (Inr [])"
proof (intro conjI impI)
  assume run: "commitViaAPI github fs options s = (Inr res, t)"
  then have nonempty: "opt_filePaths options \<noteq> []"
    by (auto simp: commitViaAPI_def throw_def)
  from commitViaAPI_run[OF run nonempty] obtain evs where
    t: "t = s @ evs" and "commit_run options (Inr res) evs" by blast
  from commit_run_success[OF this(2)] obtain pre blobs branchSha baseTreeSha entries x where
    evs: "evs = pre @ blobs @
       [Remote (CreateTree (opt_owner options) (opt_repo options) baseTreeSha entries)
          (Inr (res_treeSha res)),
        Remote (CreateCommit (opt_owner options) (opt_repo options) (opt_message options)
          (res_treeSha res) [branchSha]) (Inr (res_commitSha res)),
        Remote (UpdateRef (opt_owner options) (opt_repo options)
          (''heads/'' @ opt_branch options) (res_commitSha res) False) (Inr x)]"
    and pre: "resolve_run options (Inr (branchSha, baseTreeSha)) pre"
    and blobs: "list_all is_CreateBlob (remote_calls blobs)"
    and count: "res_filesCommitted res = length (opt_filePaths options)"
    by blast
  from pre have "tree_calls pre = []"
    and "\<forall>owner repo message tree parents y.
           Remote (CreateCommit owner repo message tree parents) y \<notin> set pre"
    by (auto elim!: resolve_run.cases)
  with blobs have "tree_calls (pre @ blobs) = []"
    and "\<forall>owner repo message tree parents y.
           Remote (CreateCommit owner repo message tree parents) y \<notin> set (pre @ blobs)"
    by (simp_all add: tree_calls_append tree_calls_blobs blobs_remote)
  with t evs show "\<exists>evs base_tree entries parent x.
         t = s @ evs @
           [Remote (CreateTree (opt_owner options) (opt_repo options) base_tree entries)
              (Inr (res_treeSha res)),
            Remote (CreateCommit (opt_owner options) (opt_repo options) (opt_message options)
              (res_treeSha res) [parent]) (Inr (res_commitSha res)),
            Remote (UpdateRef (opt_owner options) (opt_repo options)
              (''heads/'' @ opt_branch options) (res_commitSha res) False) (Inr x)] \<and>
         tree_calls evs = [] \<and>
         (\<forall>owner repo message tree parents y.
            Remote (CreateCommit owner repo message tree parents) y \<notin> set evs)"
    by (intro exI[of _ "pre @ blobs"] exI[of _ baseTreeSha] exI[of _ entries]
        exI[of _ branchSha] exI[of _ x]) simp
  from count show "res_filesCommitted res = length (opt_filePaths options)" .
next
  show "fst (commitViaAPI mock_github (mock_fs mode_644)
          (test_options [''file1.txt'', ''file2.txt''] None) []) =
     Inr \<lparr>res_commitSha = ''commit-sha'', res_treeSha = ''new-tree-sha'',
           res_filesCommitted = 2\<rparr>"
    by (simp add: mock_run_two_files)
  show "last (snd (commitViaAPI mock_github (mock_fs mode_644)
          (test_options [''file1.txt'', ''file2.txt''] None) [])) =
     Remote (UpdateRef ''owner'' ''repo'' ''heads/dev'' ''commit-sha'' False) (Inr [])"
    by (simp add: mock_run_two_files)
qed

theorem commitViaAPI_result_witness:
  "commitViaAPI mock_github (mock_fs mode_644)
     (test_options [''file1.txt''] (Some ''provided-base-sha'')) [] =
   (Inr \<lparr>res_commitSha = ''commit-sha'', res_treeSha = ''new-tree-sha'',
         res_filesCommitted = 1\<rparr>,
    snd (commitViaAPI mock_github (mock_fs mode_644)
      (test_options [''file1.txt''] (Some ''provided-base-sha'')) [])) \<and>
   (\<exists>evs base_tree entries parent x.
      snd (commitViaAPI mock_github (mock_fs mode_644)
        (test_options [''file1.txt''] (Some ''provided-base-sha'')) []) =
      evs @
        [Remote (CreateTree ''owner'' ''repo'' base_tree entries) (Inr ''new-tree-sha''),
         Remote (CreateCommit ''owner'' ''repo'' ''Test commit'' ''new-tree-sha'' [parent])
           (Inr ''commit-sha''),
         Remote (UpdateRef ''owner'' ''repo'' ''heads/dev'' ''commit-sha'' False) (Inr x)]) \<and>
   length (opt_filePaths (test_options [''file1.txt''] (Some ''provided-base-sha''))) = 1"
proof -
  have run: "commitViaAPI mock_github (mock_fs mode_644)
     (test_options [''file1.txt''] (Some ''provided-base-sha'')) [] =
   (Inr \<lparr>res_commitSha = ''commit-sha'', res_treeSha = ''new-tree-sha'',
         res_filesCommitted = 1\<rparr>,
    snd (commitViaAPI mock_github (mock_fs mode_644)
      (test_options [''file1.txt''] (Some ''provided-base-sha'')) []))"
    by (simp add: mock_run_provided_base)
  note result = commitViaAPI_result[where github = mock_github and fs = "mock_fs mode_644"
      and options = "test_options [''file1.txt''] (Some ''provided-base-sha'')" and s = "[]"
      and res = "\<lparr>res_commitSha = ''commit-sha'', res_treeSha = ''new-tree-sha'',
         res_filesCommitted = 1\<rparr>"
      and t = "snd (commitViaAPI mock_github (mock_fs mode_644)
        (test_options [''file1.txt''] (Some ''provided-base-sha'')) [])",
      THEN conjunct1, rule_format, OF run]
  from result have "\<exists>evs base_tree entries parent x.
      snd (commitViaAPI mock_github (mock_fs mode_644)
        (test_options [''file1.txt''] (Some ''provided-base-sha'')) []) =
      evs @
        [Remote (CreateTree ''owner'' ''repo'' base_tree entries) (Inr ''new-tree-sha''),
         Remote (CreateCommit ''owner'' ''repo'' ''Test commit'' ''new-tree-sha'' [parent])
           (Inr ''commit-sha''),
         Remote (UpdateRef ''owner'' ''repo'' ''heads/dev'' ''commit-sha'' False) (Inr x)]"
    apply (elim exE conjE)
    subgoal for evs base_tree entries parent x
      by (intro exI[of _ evs] exI[of _ base_tree] exI[of _ entries] exI[of _ parent]
          exI[of _ x])
         (simp add: test_options_def)
    done
  moreover from result
  have "length (opt_filePaths (test_options [''file1.txt''] (Some ''provided-base-sha''))) = 1"
    by simp
  ultimately show ?thesis using run by (intro conjI)
qed

subsection \<open>The empty base id\<close>

text \<open>
  C10. With \<^verbatim>\<open>baseSha\<close> the empty string \<^verbatim>\<open>commitViaAPI\<close> runs exactly as without
  \<^verbatim>\<open>baseSha\<close>. On a non-empty list of paths, when the client cannot be built the run
  fails with that error and sends no request; otherwise its first request is get-ref for
  \<^verbatim>\<open>heads/<branch>\<close>, answered by the remote, and no other get-ref request is sent. When
  get-ref fails the run fails with its error and does nothing more. When it answers a
  commit id, the tip of the branch, the next request is get-commit for that id, the only
  get-commit request of the run; when it fails the run fails with its error and does
  nothing more. When it answers a tree id, the uploads start next, with the first path;
  every create-tree request has the tree of the tip as its base and every create-commit
  request has the tip as its only parent; and when the uploads all succeed, create-tree on
  the tree of the tip follows them directly and, once it is answered, create-commit with
  the new tree and the tip as its parent is the next request.
\<close>

theorem commitViaAPI_empty_baseSha:
  assumes "opt_baseSha options = Some []"
  shows
   "commitViaAPI github fs options s =
      commitViaAPI github fs (options\<lparr>opt_baseSha := None\<rparr>) s \<and>
    (opt_filePaths options \<noteq> [] \<longrightarrow>
       (\<forall>e. getOctokit github (opt_token options) = Inl e \<longrightarrow>
          commitViaAPI github fs options s = (Inl e, s)) \<and>
       (\<forall>octokit. getOctokit github (opt_token options) = Inr octokit \<longrightarrow>
          (let owner = opt_owner options; repo = opt_repo options; branch = opt_branch options;
               message = opt_message options; filePaths = opt_filePaths options
           in
           (\<exists>r x rest.
              commitViaAPI github fs options s = (r, s @ Remote (GetRef owner repo (''heads/'' @ branch)) x # rest) \<and>
              x = octokit s (GetRef owner repo (''heads/'' @ branch)) \<and>
              (\<forall>owner' repo' ref a. Remote (GetRef owner' repo' ref) a \<notin> set rest) \<and>
              (\<forall>e. x = Inl e \<longrightarrow> r = Inl e \<and> rest = []) \<and>
              (\<forall>tip. x = Inr tip \<longrightarrow>
                 (\<exists>y rest'.
                    rest = Remote (GetCommit owner repo tip) y # rest' \<and>
                    y = octokit (s @ [Remote (GetRef owner repo (''heads/'' @ branch)) x]) (GetCommit owner repo tip) \<and>
                    (\<forall>owner' repo' commit_sha a.
                       Remote (GetCommit owner' repo' commit_sha) a \<notin> set rest') \<and>
                    (\<forall>e. y = Inl e \<longrightarrow> r = Inl e \<and> rest' = []) \<and>
                    (\<forall>baseTreeSha. y = Inr baseTreeSha \<longrightarrow>
                       (\<exists>found rest''. rest' = ExistsSync (hd filePaths) found # rest'') \<and>
                       (\<forall>owner' repo' base_tree entries a.
                          Remote (CreateTree owner' repo' base_tree entries) a \<in> set rest' \<longrightarrow>
                          base_tree = baseTreeSha) \<and>
                       (\<forall>owner' repo' message' tree parents a.
                          Remote (CreateCommit owner' repo' message' tree parents) a \<in> set rest' \<longrightarrow>
                          parents = [tip]) \<and>
                       (\<forall>entries s2.
                          createTree_for fs octokit owner repo filePaths []
                            (s @ [Remote (GetRef owner repo (''heads/'' @ branch)) x,
                                 Remote (GetCommit owner repo tip) y]) =
                            (Inr entries, s2) \<longrightarrow>
                          (\<exists>created post.
                             s @ [Remote (GetRef owner repo (''heads/'' @ branch)) x,
                                 Remote (GetCommit owner repo tip) y] @ rest' =
                               s2 @ Remote (CreateTree owner repo baseTreeSha entries) created # post \<and>
                             (\<forall>newTreeSha. created = Inr newTreeSha \<longrightarrow>
                                (\<exists>committed post'.
                                   post =
                                     Remote (CreateCommit owner repo message newTreeSha [tip]) committed #
                                     post')))))))))))"
proof -
  from assms have absent: "\<not> truthy (opt_baseSha options)" by simp
  from assms have same: "commitViaAPI github fs options s =
      commitViaAPI github fs (options\<lparr>opt_baseSha := None\<rparr>) s"
    by (simp add: commitViaAPI_def Let_def)
  show ?thesis
    unfolding Let_def
    apply (intro conjI allI impI)
      apply (rule same)
     apply (erule (1) commitViaAPI_no_client)
    apply (erule (1) branch_base, rule absent)
    done
qed

theorem commitViaAPI_empty_baseSha_witness:
  "opt_baseSha (test_options [''file1.txt''] (Some [])) = Some [] \<and>
   opt_filePaths (test_options [''file1.txt''] (Some [])) \<noteq> [] \<and>
   getOctokit mock_github (opt_token (test_options [''file1.txt''] (Some []))) =
     Inr mock_octokit \<and>
   commitViaAPI mock_github (mock_fs mode_644) (test_options [''file1.txt''] (Some [])) [] =
     commitViaAPI mock_github (mock_fs mode_644) (test_options [''file1.txt''] None) [] \<and>
   (\<exists>r rest.
      commitViaAPI mock_github (mock_fs mode_644)
        (test_options [''file1.txt''] (Some [])) [] =
        (r, Remote (GetRef ''owner'' ''repo'' ''heads/dev'') (Inr ''base-sha'') #
            Remote (GetCommit ''owner'' ''repo'' ''base-sha'') (Inr ''base-tree-sha'') # rest) \<and>
      (\<forall>owner repo ref y. Remote (GetRef owner repo ref) y \<notin> set rest) \<and>
      (\<forall>owner repo commit_sha y. Remote (GetCommit owner repo commit_sha) y \<notin> set rest) \<and>
      (\<exists>found rest''. rest = ExistsSync ''file1.txt'' found # rest'') \<and>
      (\<exists>created post.
         Remote (GetRef ''owner'' ''repo'' ''heads/dev'') (Inr ''base-sha'') #
         Remote (GetCommit ''owner'' ''repo'' ''base-sha'') (Inr ''base-tree-sha'') # rest =
         [Remote (GetRef ''owner'' ''repo'' ''heads/dev'') (Inr ''base-sha''),
          Remote (GetCommit ''owner'' ''repo'' ''base-sha'') (Inr ''base-tree-sha''),
          ExistsSync ''file1.txt'' True,
          ReadFileSync ''file1.txt'' (Inr [99, 111, 110, 116, 101, 110, 116]),
          Remote (CreateBlob ''owner'' ''repo'' ''Y29udGVudA=='' ''base64'') (Inr ''blob-sha''),
          StatSync ''file1.txt'' (Inr \<lparr>st_mode = 420\<rparr>)] @
         Remote (CreateTree ''owner'' ''repo'' ''base-tree-sha''
           [\<lparr>entry_path = ''file1.txt'', entry_mode = ''100644'', entry_type = ''blob'',
            entry_sha = ''blob-sha''\<rparr>]) created # post))"
proof -
  have empty: "opt_baseSha (test_options [''file1.txt''] (Some [])) = Some []"
    and nonempty: "opt_filePaths (test_options [''file1.txt''] (Some [])) \<noteq> []"
    and client: "getOctokit mock_github (opt_token (test_options [''file1.txt''] (Some []))) =
       Inr mock_octokit"
    by (simp_all add: test_options_def mock_github_def)
  note inst = commitViaAPI_empty_baseSha[OF empty, of mock_github "mock_fs mode_644" "[]",
      unfolded Let_def]
  from inst have same: "commitViaAPI mock_github (mock_fs mode_644) (test_options [''file1.txt''] (Some [])) [] =
     commitViaAPI mock_github (mock_fs mode_644) (test_options [''file1.txt''] None) []"
    by (simp add: test_options_def)
  from inst[THEN conjunct2, rule_format, OF nonempty, THEN conjunct2, rule_format, OF client]
  have tip: "(\<exists>r rest.
      commitViaAPI mock_github (mock_fs mode_644)
        (test_options [''file1.txt''] (Some [])) [] =
        (r, Remote (GetRef ''owner'' ''repo'' ''heads/dev'') (Inr ''base-sha'') #
            Remote (GetCommit ''owner'' ''repo'' ''base-sha'') (Inr ''base-tree-sha'') # rest) \<and>
      (\<forall>owner repo ref y. Remote (GetRef owner repo ref) y \<notin> set rest) \<and>
      (\<forall>owner repo commit_sha y. Remote (GetCommit owner repo commit_sha) y \<notin> set rest) \<and>
      (\<exists>found rest''. rest = ExistsSync ''file1.txt'' found # rest'') \<and>
      (\<exists>created post.
         Remote (GetRef ''owner'' ''repo'' ''heads/dev'') (Inr ''base-sha'') #
         Remote (GetCommit ''owner'' ''repo'' ''base-sha'') (Inr ''base-tree-sha'') # rest =
         [Remote (GetRef ''owner'' ''repo'' ''heads/dev'') (Inr ''base-sha''),
          Remote (GetCommit ''owner'' ''repo'' ''base-sha'') (Inr ''base-tree-sha''),
          ExistsSync ''file1.txt'' True,
          ReadFileSync ''file1.txt'' (Inr [99, 111, 110, 116, 101, 110, 116]),
          Remote (CreateBlob ''owner'' ''repo'' ''Y29udGVudA=='' ''base64'') (Inr ''blob-sha''),
          StatSync ''file1.txt'' (Inr \<lparr>st_mode = 420\<rparr>)] @
         Remote (CreateTree ''owner'' ''repo'' ''base-tree-sha''
           [\<lparr>entry_path = ''file1.txt'', entry_mode = ''100644'', entry_type = ''blob'',
            entry_sha = ''blob-sha''\<rparr>]) created # post))"
    apply (elim exE conjE)
    subgoal for r x rest
      apply (clarsimp simp add: test_options_def mock_octokit_def mock_loop_branch
          simp del: createTree_for.simps)
      apply (rule exI[of _ True], rule TrueI)
      done
    done
  from empty nonempty client same tip show ?thesis by (intro conjI)
qed

end
